theory Spec2Isabelle
  imports
    Complex_Main
    "HOL-Library.AList"
    "HOL-Library.Char_ord"
    "HOL-Library.List_Lexorder"
    "HOL-Library.Product_Lexorder"
begin

section \<open>Python values\<close>

text \<open>
  The tools of \<^verbatim>\<open>tools_no_code.py\<close> and \<^verbatim>\<open>tools_no_code_extra.py\<close> work on
  JSON-like data (\<^verbatim>\<open>Dict[str, Any]\<close>). A value is \<^verbatim>\<open>None\<close>, a bool, an unbounded
  int, a float, a string, a list or a dict. A string is the UTF-8 encoding of the
  Python \<^verbatim>\<open>str\<close>. A float is a binary64 number: a finite one, given by its exact
  rational value (the two zeros are one value), an infinity or NaN. A dict keeps its
  insertion order, so it is an association list.
\<close>

datatype pyfloat = Fin rat | PosInf | NegInf | NaN

datatype pyval =
    PNone
  | PBool bool
  | PInt int
  | PFloat pyfloat
  | PStr string
  | PList "pyval list"
  | PDict "(string \<times> pyval) list"

type_synonym pydict = "(string \<times> pyval) list"

text \<open>The exceptions the modelled code can raise.\<close>

datatype error = TypeError | ValueError | OverflowError

text \<open>
  A \<^verbatim>\<open>datetime\<close> is naive (microseconds since 0001-01-01T00:00:00) or aware (the
  same with a UTC offset).
\<close>

datatype pydatetime = Naive int | Aware int int

text \<open>
  What the code takes from the Python runtime and is not written in this repository
  is a parameter of the model:
  \<^item> \<open>rnd\<close>: rounding of an exact result to the nearest binary64 number, an infinity
    when it overflows;
  \<^item> \<open>parse_float\<close>: \<^verbatim>\<open>float(s)\<close> on a string (\<open>None\<close> is \<^verbatim>\<open>ValueError\<close>);
  \<^item> \<open>fromisoformat\<close>: \<^verbatim>\<open>datetime.fromisoformat\<close> (\<open>None\<close> is \<^verbatim>\<open>ValueError\<close>);
  \<^item> \<open>isoformat\<close>: \<^verbatim>\<open>date.isoformat\<close> of a proleptic Gregorian ordinal;
  \<^item> \<open>str_lower\<close>: \<^verbatim>\<open>str.lower\<close>;
  \<^item> \<open>repr_other\<close>: \<^verbatim>\<open>str(v)\<close> of a float, a list or a dict;
  \<^item> \<open>format_float\<close>: \<^verbatim>\<open>format(x, ",")\<close> of a float;
  \<^item> \<open>list_lt\<close>: \<^verbatim>\<open><\<close> between two lists (\<open>None\<close> is \<^verbatim>\<open>TypeError\<close>);
  \<^item> \<open>sort_positions\<close>: what \<^verbatim>\<open>list.sort\<close> does with keys that \<^verbatim>\<open><\<close> does not
    order totally (a NaN among them, or lists). Given the keys and the \<^verbatim>\<open>reverse\<close>
    flag, it lists the positions of the input in the order of the output.
\<close>

record pylib =
  rnd :: "rat \<Rightarrow> pyfloat"
  parse_float :: "string \<Rightarrow> pyfloat option"
  fromisoformat :: "string \<Rightarrow> pydatetime option"
  isoformat :: "int \<Rightarrow> string"
  str_lower :: "string \<Rightarrow> string"
  repr_other :: "pyval \<Rightarrow> string"
  format_float :: "pyfloat \<Rightarrow> string"
  list_lt :: "pyval list \<Rightarrow> pyval list \<Rightarrow> bool option"
  sort_positions :: "pyval list \<Rightarrow> bool \<Rightarrow> nat list"

subsection \<open>Built-in operations\<close>

text \<open>\<^verbatim>\<open>d.get(k, default)\<close>.\<close>

definition dict_get :: "pydict \<Rightarrow> string \<Rightarrow> pyval \<Rightarrow> pyval" where
  "dict_get d k dflt = (case map_of d k of None \<Rightarrow> dflt | Some v \<Rightarrow> v)"

text \<open>Truth value of an object, as \<^verbatim>\<open>if x:\<close> and \<^verbatim>\<open>x or y\<close> test it.\<close>

fun truthy :: "pyval \<Rightarrow> bool" where
  "truthy PNone = False"
| "truthy (PBool b) = b"
| "truthy (PInt n) = (n \<noteq> 0)"
| "truthy (PFloat x) = (x \<noteq> Fin 0)"
| "truthy (PStr s) = (s \<noteq> [])"
| "truthy (PList xs) = (xs \<noteq> [])"
| "truthy (PDict d) = (d \<noteq> [])"

definition py_or :: "pyval \<Rightarrow> pyval \<Rightarrow> pyval" where
  "py_or a b = (if truthy a then a else b)"

text \<open>Decimal digits of an int, as \<^verbatim>\<open>str(n)\<close> and an f-string print them.\<close>

definition digit_char :: "nat \<Rightarrow> char" where
  "digit_char d = ''0123456789'' ! d"

fun str_of_nat :: "nat \<Rightarrow> string" where
  "str_of_nat n =
     (if n < 10 then [digit_char n] else str_of_nat (n div 10) @ [digit_char (n mod 10)])"

declare str_of_nat.simps [simp del]

definition str_of_int :: "int \<Rightarrow> string" where
  "str_of_int n = (if n < 0 then ''-'' @ str_of_nat (nat (- n)) else str_of_nat (nat n))"

text \<open>\<^verbatim>\<open>str(v)\<close>, which is also what an f-string field \<^verbatim>\<open>{v}\<close> prints.\<close>

fun py_str :: "pylib \<Rightarrow> pyval \<Rightarrow> string" where
  "py_str lib PNone = ''None''"
| "py_str lib (PBool b) = (if b then ''True'' else ''False'')"
| "py_str lib (PInt n) = str_of_int n"
| "py_str lib (PStr s) = s"
| "py_str lib v = repr_other lib v"

text \<open>\<^verbatim>\<open>sep.join(xs)\<close>.\<close>

fun join :: "string \<Rightarrow> string list \<Rightarrow> string" where
  "join sep [] = []"
| "join sep [x] = x"
| "join sep (x # y # ys) = x @ sep @ join sep (y # ys)"

text \<open>\<^verbatim>\<open>needle in hay\<close> on strings.\<close>

fun starts_with :: "string \<Rightarrow> string \<Rightarrow> bool" where
  "starts_with [] hay = True"
| "starts_with (c # cs) [] = False"
| "starts_with (c # cs) (h # hs) = (c = h \<and> starts_with cs hs)"

fun contains :: "string \<Rightarrow> string \<Rightarrow> bool" where
  "contains needle [] = (needle = [])"
| "contains needle (h # hs) = (starts_with needle (h # hs) \<or> contains needle hs)"

section \<open>Award Lifecycle Tracker: \<^verbatim>\<open>deposit_tracker\<close>\<close>

text \<open>
  \<^verbatim>\<open>details\<close> is a dict or \<^verbatim>\<open>None\<close>; \<^verbatim>\<open>(details or {})\<close> is the empty dict for
  \<^verbatim>\<open>None\<close> and for an empty dict.
\<close>

definition details_or_empty :: "pydict option \<Rightarrow> pydict" where
  "details_or_empty details =
     (case details of None \<Rightarrow> [] | Some d \<Rightarrow> if d \<noteq> [] then d else [])"

definition details_val :: "pydict option \<Rightarrow> pyval" where
  "details_val details = (case details of None \<Rightarrow> PNone | Some d \<Rightarrow> PDict d)"

definition deposit_tracker :: "string \<Rightarrow> string \<Rightarrow> pydict option \<Rightarrow> pydict" where
  "deposit_tracker award_id action details =
     (if action = ''register_award'' then
        [(''award_id'', PStr award_id),
         (''status'', PStr ''Registered''),
         (''amount_awarded'', dict_get (details_or_empty details) ''amount_awarded'' PNone)]
      else if action = ''record_deposit'' then
        [(''award_id'', PStr award_id),
         (''status'', PStr ''Deposit Recorded''),
         (''deposit_amount'', dict_get (details_or_empty details) ''deposit_amount'' PNone)]
      else if action = ''allocate_funds'' then
        [(''award_id'', PStr award_id),
         (''status'', PStr ''Funds Allocated''),
         (''allocation_details'',
            dict_get (details_or_empty details) ''allocation_details'' PNone)]
      else if action = ''report_outcome'' then
        [(''award_id'', PStr award_id),
         (''status'', PStr ''Report Submitted''),
         (''outcome_details'', dict_get (details_or_empty details) ''outcome_details'' PNone)]
      else
        [(''award_id'', PStr award_id),
         (''status'', PStr ''Unknown action''),
         (''details'', details_val details)])"

text \<open>
  A session of calls to the tracker. The function reads and writes no variable
  outside its body, so the state threaded through a session is empty and the replies
  are those of the single calls, in order.
\<close>

type_synonym tracker_call = "string \<times> string \<times> pydict option"

fun tracker_session :: "tracker_call list \<Rightarrow> pydict list" where
  "tracker_session [] = []"
| "tracker_session ((award_id, action, details) # calls) =
     deposit_tracker award_id action details # tracker_session calls"

section \<open>Opportunity Generator: \<^verbatim>\<open>grant_search\<close>\<close>

subsection \<open>Dates\<close>

definition us_per_day :: int where
  "us_per_day = 86400000000"

text \<open>\<^verbatim>\<open>date.max.toordinal()\<close>: the ordinal of 9999-12-31.\<close>

definition max_ordinal :: int where
  "max_ordinal = 3652059"

definition valid_datetime :: "int \<Rightarrow> bool" where
  "valid_datetime t = (0 \<le> t \<and> t < max_ordinal * us_per_day)"

text \<open>\<^verbatim>\<open>dt.date()\<close>, as the proleptic Gregorian ordinal of the day (0001-01-01 is 1).\<close>

definition date_of :: "int \<Rightarrow> int" where
  "date_of t = t div us_per_day + 1"

text \<open>
  \<^verbatim>\<open>dt + timedelta(days=k)\<close>. The constructor \<^verbatim>\<open>timedelta\<close> raises \<^verbatim>\<open>OverflowError\<close>
  beyond 999999999 days, and the sum raises \<^verbatim>\<open>OverflowError\<close> when it leaves the years
  1 to 9999.
\<close>

definition datetime_add_days :: "int \<Rightarrow> int \<Rightarrow> error + int" where
  "datetime_add_days t k =
     (if \<bar>k\<bar> > 999999999 then Inl OverflowError
      else if valid_datetime (t + k * us_per_day) then Inr (t + k * us_per_day)
      else Inl OverflowError)"

subsection \<open>The generator\<close>

text \<open>
  \<open>now\<close> is the reading of the wall clock, \<^verbatim>\<open>datetime.now()\<close>, frozen for the
  duration of a call.
\<close>

definition keywords_str :: "string list \<Rightarrow> string" where
  "keywords_str mission_keywords =
     (if mission_keywords \<noteq> [] then join '', '' mission_keywords
      else ''general mission alignment'')"

definition deadline :: "pylib \<Rightarrow> int \<Rightarrow> nat \<Rightarrow> error + string" where
  "deadline lib now i =
     (case datetime_add_days now (90 + int i * 15) of
        Inl e \<Rightarrow> Inl e
      | Inr t \<Rightarrow> Inr (isoformat lib (date_of t)))"

text \<open>The dict literal appended for index \<open>i\<close>.\<close>

definition opportunity :: "pylib \<Rightarrow> int \<Rightarrow> string \<Rightarrow> string \<Rightarrow> nat \<Rightarrow> error + pydict" where
  "opportunity lib now kws region i =
     (case deadline lib now i of
        Inl e \<Rightarrow> Inl e
      | Inr dl \<Rightarrow> Inr
          [(''funder_name'', PStr (''Example Foundation '' @ str_of_int (int i + 1))),
           (''mission_focus'', PStr (''Focus on: '' @ kws)),
           (''award_size_min'', PInt (5000 + int i * 1000)),
           (''award_size_max'', PInt (25000 + int i * 2000)),
           (''deadline'', PStr dl),
           (''geographic_restriction'', PStr region),
           (''eligibility'',
              PStr ''501(c)(3) non-profit organisation supporting women scholars''),
           (''url'', PStr (''https://examplefoundation.org/apply/'' @ str_of_int (int i + 1)))])"

text \<open>The loop \<^verbatim>\<open>for i in range(num): results.append(...)\<close>.\<close>

fun grant_loop ::
  "pylib \<Rightarrow> int \<Rightarrow> string \<Rightarrow> string \<Rightarrow> nat list \<Rightarrow> pydict list \<Rightarrow> error + pydict list" where
  "grant_loop lib now kws region [] results = Inr results"
| "grant_loop lib now kws region (i # is) results =
     (case opportunity lib now kws region i of
        Inl e \<Rightarrow> Inl e
      | Inr r \<Rightarrow> grant_loop lib now kws region is (results @ [r]))"

text \<open>\<^verbatim>\<open>max_results\<close> is an int, so \<^verbatim>\<open>int(max_results)\<close> is \<^verbatim>\<open>max_results\<close>.\<close>

definition grant_search ::
  "pylib \<Rightarrow> int \<Rightarrow> string list \<Rightarrow> string \<Rightarrow> int \<Rightarrow> error + pydict list" where
  "grant_search lib now mission_keywords region max_results =
     (let num = max 1 max_results
      in grant_loop lib now (keywords_str mission_keywords) region [0..<nat num] [])"

section \<open>Donor Scorer: \<^verbatim>\<open>donor_prospect\<close>\<close>

subsection \<open>Floats\<close>

text \<open>
  On finite operands a float operation is the exact operation followed by rounding to
  binary64; NaN and the infinities follow IEEE 754. \<^verbatim>\<open>a / b\<close> on two ints is the
  correctly rounded quotient.
\<close>

fun fsign :: "pyfloat \<Rightarrow> int" where
  "fsign (Fin x) = (if x < 0 then - 1 else if x = 0 then 0 else 1)"
| "fsign PosInf = 1"
| "fsign NegInf = - 1"
| "fsign NaN = 0"

fun fneg :: "pyfloat \<Rightarrow> pyfloat" where
  "fneg (Fin x) = Fin (- x)"
| "fneg PosInf = NegInf"
| "fneg NegInf = PosInf"
| "fneg NaN = NaN"

fun fmul :: "pylib \<Rightarrow> pyfloat \<Rightarrow> pyfloat \<Rightarrow> pyfloat" where
  "fmul lib (Fin x) (Fin y) = rnd lib (x * y)"
| "fmul lib NaN b = NaN"
| "fmul lib a NaN = NaN"
| "fmul lib a b =
     (if fsign a * fsign b = 0 then NaN else if 0 < fsign a * fsign b then PosInf else NegInf)"

fun fadd :: "pylib \<Rightarrow> pyfloat \<Rightarrow> pyfloat \<Rightarrow> pyfloat" where
  "fadd lib (Fin x) (Fin y) = rnd lib (x + y)"
| "fadd lib NaN b = NaN"
| "fadd lib a NaN = NaN"
| "fadd lib PosInf NegInf = NaN"
| "fadd lib NegInf PosInf = NaN"
| "fadd lib PosInf b = PosInf"
| "fadd lib a PosInf = PosInf"
| "fadd lib NegInf b = NegInf"
| "fadd lib a NegInf = NegInf"

definition fsub :: "pylib \<Rightarrow> pyfloat \<Rightarrow> pyfloat \<Rightarrow> pyfloat" where
  "fsub lib a b = fadd lib a (fneg b)"

definition int_truediv :: "pylib \<Rightarrow> int \<Rightarrow> int \<Rightarrow> pyfloat" where
  "int_truediv lib a b = rnd lib (of_int a / of_int b)"

text \<open>
  \<^verbatim>\<open>a < b\<close> on floats: false whenever an operand is NaN.
\<close>

fun float_lt :: "pyfloat \<Rightarrow> pyfloat \<Rightarrow> bool" where
  "float_lt NaN b = False"
| "float_lt a NaN = False"
| "float_lt (Fin x) (Fin y) = (x < y)"
| "float_lt NegInf NegInf = False"
| "float_lt NegInf b = True"
| "float_lt a NegInf = False"
| "float_lt PosInf b = False"
| "float_lt a PosInf = True"

text \<open>
  \<^verbatim>\<open>float(n)\<close> on an int raises \<^verbatim>\<open>OverflowError\<close> when \<open>n\<close> rounds beyond the
  largest binary64 number, \<open>2^1024 - 2^971\<close>.
\<close>

definition float_of_int :: "pylib \<Rightarrow> int \<Rightarrow> error + pyfloat" where
  "float_of_int lib n =
     (if \<bar>n\<bar> < 2 ^ 1024 - 2 ^ 970 then Inr (rnd lib (of_int n)) else Inl OverflowError)"

text \<open>
  The constructor \<^verbatim>\<open>float(v)\<close>. On a string it may give any float: \<^verbatim>\<open>float("nan")\<close>
  is NaN and \<^verbatim>\<open>float("inf")\<close> an infinity.
\<close>

fun py_float :: "pylib \<Rightarrow> pyval \<Rightarrow> error + pyfloat" where
  "py_float lib PNone = Inl TypeError"
| "py_float lib (PBool b) = Inr (Fin (if b then 1 else 0))"
| "py_float lib (PInt n) = float_of_int lib n"
| "py_float lib (PFloat x) = Inr x"
| "py_float lib (PStr s) = (case parse_float lib s of None \<Rightarrow> Inl ValueError | Some x \<Rightarrow> Inr x)"
| "py_float lib (PList xs) = Inl TypeError"
| "py_float lib (PDict d) = Inl TypeError"

text \<open>
  \<^verbatim>\<open>round(x, 2)\<close> on a float. The exact value of a finite float is rounded to two
  decimals, a tie going to the even digit, and the decimal is rounded to binary64; NaN
  and the infinities are returned as they are.
\<close>

definition round_half_even :: "rat \<Rightarrow> int" where
  "round_half_even x =
     (let f = \<lfloor>x\<rfloor>; r = x - of_int f
      in if r < 1 / 2 then f else if 1 / 2 < r then f + 1 else if even f then f else f + 1)"

fun round2 :: "pylib \<Rightarrow> pyfloat \<Rightarrow> pyfloat" where
  "round2 lib (Fin x) = rnd lib (of_int (round_half_even (x * 100)) / 100)"
| "round2 lib x = x"

subsection \<open>Sorting\<close>

text \<open>
  \<^verbatim>\<open>list.sort\<close> always leaves a permutation of the list. When \<^verbatim>\<open><\<close> does not order
  the keys totally, which permutation it leaves depends on the comparisons the
  algorithm makes, and is taken from the runtime. The test states in the model that
  the runtime gives a permutation of the positions; the runtime's function always
  passes it.
\<close>

definition runtime_sorted :: "pylib \<Rightarrow> pyval list \<Rightarrow> bool \<Rightarrow> 'a list \<Rightarrow> 'a list" where
  "runtime_sorted lib keys reverse xs =
     (let p = sort_positions lib keys reverse
      in if sort p = [0..<length xs] then map (\<lambda>i. xs ! i) p else xs)"

text \<open>
  Floats that are not NaN are totally ordered by \<^verbatim>\<open><\<close>: the negative infinity, the
  finite floats by value, the positive infinity.
\<close>

fun sort_rank :: "pyfloat \<Rightarrow> int \<times> rat" where
  "sort_rank NegInf = (- 1, 0)"
| "sort_rank (Fin x) = (0, x)"
| "sort_rank PosInf = (1, 0)"
| "sort_rank NaN = (2, 0)"

text \<open>
  \<^verbatim>\<open>sorted(xs, key=key, reverse=True)\<close> with float keys. CPython reverses the list,
  sorts it with its stable ascending sort, and reverses the result; on keys without a
  NaN that is the stable descending order.
\<close>

definition sorted_reverse :: "pylib \<Rightarrow> ('a \<Rightarrow> pyfloat) \<Rightarrow> 'a list \<Rightarrow> 'a list" where
  "sorted_reverse lib key xs =
     (if list_all (\<lambda>x. key x \<noteq> NaN) xs then rev (sort_key (\<lambda>x. sort_rank (key x)) (rev xs))
      else runtime_sorted lib (map (\<lambda>x. PFloat (key x)) xs) True xs)"

subsection \<open>Scoring one record\<close>

text \<open>
  The \<^verbatim>\<open>try\<close> block. \<^verbatim>\<open>fromisoformat\<close> raises \<^verbatim>\<open>ValueError\<close> on a string it cannot
  parse, and subtracting an aware datetime from the naive \<^verbatim>\<open>now()\<close> raises
  \<^verbatim>\<open>TypeError\<close>; \<^verbatim>\<open>except Exception\<close> turns both into a bonus of 0.0. The attribute
  \<^verbatim>\<open>.days\<close> of a difference is its floor in days.
\<close>

definition recency_bonus :: "pylib \<Rightarrow> int \<Rightarrow> pydict \<Rightarrow> pyfloat" where
  "recency_bonus lib now d =
     (let date_str = dict_get d ''last_gift_date'' PNone
      in if truthy date_str then
           (case fromisoformat lib (py_str lib date_str) of
              None \<Rightarrow> Fin 0
            | Some (Aware t off) \<Rightarrow> Fin 0
            | Some (Naive t) \<Rightarrow>
                (let days_ago = max 1 ((now - t) div us_per_day)
                 in int_truediv lib 1000 days_ago))
         else Fin 0)"

text \<open>
  The body of the scoring loop up to \<^verbatim>\<open>round(score, 2)\<close>. The conversion
  \<^verbatim>\<open>float(...)\<close> stands outside the \<^verbatim>\<open>try\<close> block, so its exception leaves the
  function.
\<close>

definition donor_score :: "pylib \<Rightarrow> int \<Rightarrow> pydict \<Rightarrow> error + pyfloat" where
  "donor_score lib now d =
     (case py_float lib (py_or (dict_get d ''last_gift_amount'' (PInt 0)) (PInt 0)) of
        Inl e \<Rightarrow> Inl e
      | Inr base \<Rightarrow>
          (let score = fadd lib (fmul lib base (Fin (1 / 2))) (recency_bonus lib now d)
           in Inr (round2 lib score)))"

subsection \<open>The store of dict objects\<close>

text \<open>
  The caller's records are objects, and the scorer receives references to them. A
  store is the list of the dict objects allocated so far, and a reference is an index
  into it. \<^verbatim>\<open>dict(d)\<close> allocates a new object with the items of \<open>d\<close>;
  \<^verbatim>\<open>item[k] = v\<close> replaces the value of \<open>k\<close> in place, or appends the item when \<open>k\<close> is
  new.
\<close>

type_synonym ref = nat
type_synonym store = "pydict list"

definition dict_copy :: "store \<Rightarrow> ref \<Rightarrow> store \<times> ref" where
  "dict_copy h a = (h @ [h ! a], length h)"

definition dict_setitem :: "store \<Rightarrow> ref \<Rightarrow> string \<Rightarrow> pyval \<Rightarrow> store" where
  "dict_setitem h a k v = h[a := AList.update k v (h ! a)]"

text \<open>A reference handed to the function denotes an object of the store.\<close>

definition live :: "store \<Rightarrow> ref list \<Rightarrow> bool" where
  "live h refs = list_all (\<lambda>a. a < length h) refs"

subsection \<open>Filtering\<close>

definition industry_match :: "pylib \<Rightarrow> string list \<Rightarrow> pydict \<Rightarrow> bool" where
  "industry_match lib inds d =
     (str_lower lib (py_str lib (dict_get d ''industry'' (PStr ''''))) \<in> set inds)"

definition region_match :: "pylib \<Rightarrow> string \<Rightarrow> pydict \<Rightarrow> bool" where
  "region_match lib r d =
     contains r (str_lower lib (py_str lib (dict_get d ''region'' (PStr ''''))))"

text \<open>
  The two \<^verbatim>\<open>if\<close> statements. A filter that is \<^verbatim>\<open>None\<close> or empty is falsy and skips
  its statement.
\<close>

definition filter_donors ::
  "pylib \<Rightarrow> store \<Rightarrow> ref list \<Rightarrow> string list option \<Rightarrow> string option \<Rightarrow> ref list" where
  "filter_donors lib h past_donors industry_filter region =
     (let filtered = past_donors;
          filtered =
            (case industry_filter of
               None \<Rightarrow> filtered
             | Some fs \<Rightarrow>
                 if fs \<noteq> [] then
                   (let inds = map (str_lower lib) fs
                    in filter (\<lambda>a. industry_match lib inds (h ! a)) filtered)
                 else filtered);
          filtered =
            (case region of
               None \<Rightarrow> filtered
             | Some rg \<Rightarrow>
                 if rg \<noteq> [] then
                   (let r = str_lower lib rg
                    in filter (\<lambda>a. region_match lib r (h ! a)) filtered)
                 else filtered)
      in filtered)"

subsection \<open>Scoring, sorting, truncating\<close>

text \<open>
  The loop \<^verbatim>\<open>for d in filtered\<close>. An exception of \<^verbatim>\<open>float(...)\<close> ends it; the store
  then holds the copies made so far.
\<close>

fun score_loop ::
  "pylib \<Rightarrow> int \<Rightarrow> store \<Rightarrow> ref list \<Rightarrow> ref list \<Rightarrow> store \<times> (error + ref list)" where
  "score_loop lib now h [] scored = (h, Inr scored)"
| "score_loop lib now h (d # ds) scored =
     (case donor_score lib now (h ! d) of
        Inl e \<Rightarrow> (h, Inl e)
      | Inr s \<Rightarrow>
          (let (h1, item) = dict_copy h d;
               h2 = dict_setitem h1 item ''potential_score'' (PFloat s)
           in score_loop lib now h2 ds (scored @ [item])))"

text \<open>
  The sort key \<^verbatim>\<open>x["potential_score"]\<close>. Every record of \<^verbatim>\<open>scored\<close> holds a float
  there, the result of \<^verbatim>\<open>round\<close>; the other branch is never taken.
\<close>

definition potential_score :: "store \<Rightarrow> ref \<Rightarrow> pyfloat" where
  "potential_score h a =
     (case map_of (h ! a) ''potential_score'' of Some (PFloat x) \<Rightarrow> x | _ \<Rightarrow> Fin 0)"

text \<open>\<^verbatim>\<open>top_n\<close> is an int, so \<^verbatim>\<open>int(top_n)\<close> is \<^verbatim>\<open>top_n\<close>.\<close>

definition donor_prospect ::
  "pylib \<Rightarrow> int \<Rightarrow> store \<Rightarrow> ref list \<Rightarrow> string list option \<Rightarrow> string option \<Rightarrow> int
     \<Rightarrow> store \<times> (error + ref list)" where
  "donor_prospect lib now h past_donors industry_filter region top_n =
     (let filtered = filter_donors lib h past_donors industry_filter region
      in case score_loop lib now h filtered [] of
           (h', Inl e) \<Rightarrow> (h', Inl e)
         | (h', Inr scored) \<Rightarrow>
             (let scored_sorted = sorted_reverse lib (potential_score h') scored
              in (h', Inr (take (nat (max 0 top_n)) scored_sorted))))"

section \<open>Dashboard Aggregator: \<^verbatim>\<open>dashboard_summary\<close>\<close>

subsection \<open>Formatting and arithmetic of values\<close>

text \<open>\<^verbatim>\<open>format(n, ",")\<close> on an int: the digits in groups of three.\<close>

definition pad3 :: "nat \<Rightarrow> string" where
  "pad3 n = [digit_char (n div 100), digit_char (n div 10 mod 10), digit_char (n mod 10)]"

fun comma_nat :: "nat \<Rightarrow> string" where
  "comma_nat n =
     (if n < 1000 then str_of_nat n else comma_nat (n div 1000) @ '','' @ pad3 (n mod 1000))"

declare comma_nat.simps [simp del]

definition comma_int :: "int \<Rightarrow> string" where
  "comma_int n = (if n < 0 then ''-'' @ comma_nat (nat (- n)) else comma_nat (nat n))"

text \<open>
  The f-string field \<^verbatim>\<open>{v:,}\<close>. A bool is formatted as the int it is; a string
  raises \<^verbatim>\<open>ValueError\<close>; \<^verbatim>\<open>None\<close>, a list and a dict raise \<^verbatim>\<open>TypeError\<close>.
\<close>

fun format_comma :: "pylib \<Rightarrow> pyval \<Rightarrow> error + string" where
  "format_comma lib PNone = Inl TypeError"
| "format_comma lib (PBool b) = Inr (if b then ''1'' else ''0'')"
| "format_comma lib (PInt n) = Inr (comma_int n)"
| "format_comma lib (PFloat q) = Inr (format_float lib q)"
| "format_comma lib (PStr s) = Inl ValueError"
| "format_comma lib (PList xs) = Inl TypeError"
| "format_comma lib (PDict d) = Inl TypeError"

text \<open>The int value of an int or a bool.\<close>

fun int_of :: "pyval \<Rightarrow> int option" where
  "int_of (PInt n) = Some n"
| "int_of (PBool b) = Some (if b then 1 else 0)"
| "int_of v = None"

text \<open>
  \<^verbatim>\<open>a - b\<close>. Two ints give an int; a float on either side gives a float, the int on
  the other side being converted first.
\<close>

definition py_sub :: "pylib \<Rightarrow> pyval \<Rightarrow> pyval \<Rightarrow> error + pyval" where
  "py_sub lib a b =
     (case (int_of a, int_of b) of
        (Some m, Some n) \<Rightarrow> Inr (PInt (m - n))
      | (Some m, None) \<Rightarrow>
          (case b of
             PFloat y \<Rightarrow>
               (case float_of_int lib m of
                  Inl e \<Rightarrow> Inl e
                | Inr x \<Rightarrow> Inr (PFloat (fsub lib x y)))
           | _ \<Rightarrow> Inl TypeError)
      | (None, Some n) \<Rightarrow>
          (case a of
             PFloat x \<Rightarrow>
               (case float_of_int lib n of
                  Inl e \<Rightarrow> Inl e
                | Inr y \<Rightarrow> Inr (PFloat (fsub lib x y)))
           | _ \<Rightarrow> Inl TypeError)
      | (None, None) \<Rightarrow>
          (case (a, b) of
             (PFloat x, PFloat y) \<Rightarrow> Inr (PFloat (fsub lib x y))
           | _ \<Rightarrow> Inl TypeError))"

subsection \<open>Sorting by a key that may not be ordered\<close>

text \<open>
  \<^verbatim>\<open>a < b\<close>: numbers compare by value, strings by code point, lists as the runtime
  does; every other pair raises \<^verbatim>\<open>TypeError\<close> (\<open>None\<close> here).
\<close>

fun num_of :: "pyval \<Rightarrow> pyfloat option" where
  "num_of (PInt n) = Some (Fin (of_int n))"
| "num_of (PBool b) = Some (Fin (if b then 1 else 0))"
| "num_of (PFloat x) = Some x"
| "num_of v = None"

definition py_lt :: "pylib \<Rightarrow> pyval \<Rightarrow> pyval \<Rightarrow> bool option" where
  "py_lt lib a b =
     (case (num_of a, num_of b) of
        (Some x, Some y) \<Rightarrow> Some (float_lt x y)
      | _ \<Rightarrow>
          (case (a, b) of
             (PStr s, PStr t) \<Rightarrow> Some (s < t)
           | (PList xs, PList ys) \<Rightarrow> list_lt lib xs ys
           | _ \<Rightarrow> None))"

text \<open>Insertion before the first element that is not smaller: a stable sort.\<close>

fun insort_by :: "('a \<Rightarrow> 'a \<Rightarrow> bool) \<Rightarrow> 'a \<Rightarrow> 'a list \<Rightarrow> 'a list" where
  "insort_by lt x [] = [x]"
| "insort_by lt x (y # ys) = (if lt y x then y # insort_by lt x ys else x # y # ys)"

text \<open>
  Keys that \<^verbatim>\<open><\<close> orders totally: strings only, or numbers only with no NaN among
  them.
\<close>

fun is_str :: "pyval \<Rightarrow> bool" where
  "is_str (PStr s) = True"
| "is_str v = False"

fun is_ordered_num :: "pyval \<Rightarrow> bool" where
  "is_ordered_num v = (case num_of v of None \<Rightarrow> False | Some x \<Rightarrow> x \<noteq> NaN)"

definition ordered_keys :: "pyval list \<Rightarrow> bool" where
  "ordered_keys keys = (list_all is_str keys \<or> list_all is_ordered_num keys)"

text \<open>
  \<^verbatim>\<open>sorted(xs, key=key)\<close>. A list of fewer than two elements is returned without a
  comparison. Otherwise the sort raises \<^verbatim>\<open>TypeError\<close> when two of the keys cannot be
  compared; it returns the stable ascending order when \<^verbatim>\<open><\<close> orders the keys totally,
  and the permutation of the runtime when it does not.
\<close>

definition py_sorted :: "pylib \<Rightarrow> ('a \<Rightarrow> pyval) \<Rightarrow> 'a list \<Rightarrow> error + 'a list" where
  "py_sorted lib key xs =
     (if length xs < 2 then Inr xs
      else if \<not> list_all (\<lambda>a. list_all (\<lambda>b. py_lt lib (key a) (key b) \<noteq> None) xs) xs then
        Inl TypeError
      else if ordered_keys (map key xs) then
        Inr (foldr (insort_by (\<lambda>a b. py_lt lib (key a) (key b) = Some True)) xs [])
      else Inr (runtime_sorted lib (map key xs) False xs))"

subsection \<open>The report\<close>

text \<open>
  The source file holds the two decorations of the report as these UTF-8 bytes.
\<close>

definition glass :: string where
  "glass = [CHR 0xC3, CHR 0xB0, CHR 0xC5, CHR 0xB8, CHR 0xE2, CHR 0x80, CHR 0x9D]"

definition bullet :: string where
  "bullet = [CHR 0xC3, CHR 0xA2, CHR 0xE2, CHR 0x82, CHR 0xAC, CHR 0xC2, CHR 0xA2]"

definition opp_line :: "pylib \<Rightarrow> pydict \<Rightarrow> string" where
  "opp_line lib opp =
     ''   - '' @ py_str lib (dict_get opp ''funder_name'' PNone)
     @ '' (Deadline: '' @ py_str lib (dict_get opp ''deadline'' PNone)
     @ '', Fit Score: '' @ py_str lib (dict_get opp ''fit_score'' PNone)
     @ '')\<newline>''"

definition prospect_line :: "pylib \<Rightarrow> pydict \<Rightarrow> string" where
  "prospect_line lib p =
     ''   - '' @ py_str lib (dict_get p ''name'' PNone)
     @ '' (Industry: '' @ py_str lib (dict_get p ''industry'' PNone)
     @ '', Last Gift: $'' @ py_str lib (dict_get p ''last_gift_amount'' PNone)
     @ '', Score: '' @ py_str lib (dict_get p ''potential_score'' PNone)
     @ '')\<newline>''"

definition next_steps :: string where
  "next_steps =
     ''\<newline>Next immediate steps: Check the top-3 escrow opportunities and reach out to the top pen-prospect donor this week.''"

text \<open>
  The last \<^verbatim>\<open>summary += (...)\<close>: the three fields are formatted from left to right,
  and the first one that cannot be formatted raises.
\<close>

definition revenue_block :: "pylib \<Rightarrow> pyval \<Rightarrow> pyval \<Rightarrow> error + string" where
  "revenue_block lib target projected =
     (case format_comma lib target of
        Inl e \<Rightarrow> Inl e
      | Inr ts \<Rightarrow>
     (case format_comma lib projected of
        Inl e \<Rightarrow> Inl e
      | Inr ps \<Rightarrow>
     (case py_sub lib target projected of
        Inl e \<Rightarrow> Inl e
      | Inr gap \<Rightarrow>
     (case format_comma lib gap of
        Inl e \<Rightarrow> Inl e
      | Inr gs \<Rightarrow>
          Inr (''\<newline>'' @ bullet @ '' Event Revenue Projection:\<newline>''
               @ ''   Target: $'' @ ts @ ''\<newline>''
               @ ''   Projected: $'' @ ps @ ''\<newline>''
               @ ''   Gap: $'' @ gs @ ''\<newline>''
               @ next_steps)))))"

definition dashboard_summary ::
  "pylib \<Rightarrow> pydict list \<Rightarrow> pydict list \<Rightarrow> pydict \<Rightarrow> error + string" where
  "dashboard_summary lib opportunities donor_prospects event_projection =
     (let opp_count = length opportunities
      in case py_sorted lib (\<lambda>x. dict_get x ''deadline'' (PStr '''')) opportunities of
           Inl e \<Rightarrow> Inl e
         | Inr sorted_opps \<Rightarrow>
             (let next_deadlines = take 3 sorted_opps;
                  top_prospects = take 3 donor_prospects;
                  target = dict_get event_projection ''target_revenue'' (PInt 0);
                  projected = dict_get event_projection ''projected_revenue'' (PInt 0);
                  summary =
                    glass @ '' Funding Pipeline Summary:\<newline>\<newline>''
                    @ bullet @ '' Opportunities in pipeline: '' @ str_of_nat opp_count
                    @ ''\<newline>'';
                  summary =
                    (if next_deadlines \<noteq> [] then
                       fold (\<lambda>opp s. s @ opp_line lib opp) next_deadlines
                         (summary @ bullet @ '' Next upcoming deadlines:\<newline>'')
                     else summary);
                  summary = summary @ ''\<newline>'' @ bullet @ '' Top donor/sponsor prospects:\<newline>'';
                  summary = fold (\<lambda>p s. s @ prospect_line lib p) top_prospects summary
              in case revenue_block lib target projected of
                   Inl e \<Rightarrow> Inl e
                 | Inr block \<Rightarrow> Inr (summary @ block)))"

section \<open>Sample values of the runtime\<close>

text \<open>
  To evaluate the model at concrete inputs, the functions of the runtime are given at
  the arguments the examples use, with the values of CPython 3.11 there; at other
  arguments the sample says nothing about the runtime. Rounding gives the value
  itself, since every number the examples compute is a binary64 number. The clock
  reads 2026-11-04T09:40:00.
\<close>

definition sample_parse_float :: "string \<Rightarrow> pyfloat option" where
  "sample_parse_float s = (if s = ''nan'' then Some NaN else None)"

definition sample_sort_positions :: "pyval list \<Rightarrow> bool \<Rightarrow> nat list" where
  "sample_sort_positions keys reverse =
     (if keys = [PFloat (Fin 50), PFloat NaN, PFloat (Fin 100)] \<and> reverse then [0, 1, 2]
      else [])"

definition ascii_lower :: "string \<Rightarrow> string" where
  "ascii_lower s =
     map (\<lambda>c. if CHR ''A'' \<le> c \<and> c \<le> CHR ''Z'' then char_of (of_char c + (32::nat)) else c) s"

definition sample_fromisoformat :: "string \<Rightarrow> pydatetime option" where
  "sample_fromisoformat s =
     (if s = ''2026-07-27'' then Some (Naive 63920707200000000)
      else if s = ''2026-07-27T00:00:00+00:00'' then Some (Aware 63920707200000000 0)
      else None)"

definition sample_isoformat :: "int \<Rightarrow> string" where
  "sample_isoformat n =
     (if n = 740014 then ''2027-02-02''
      else if n = 740029 then ''2027-02-17''
      else if n = 740044 then ''2027-03-04''
      else [])"

definition sample_lib :: pylib where
  "sample_lib =
     \<lparr> rnd = Fin,
       parse_float = sample_parse_float,
       fromisoformat = sample_fromisoformat,
       isoformat = sample_isoformat,
       str_lower = ascii_lower,
       repr_other = (\<lambda>v. []),
       format_float = (\<lambda>q. []),
       list_lt = (\<lambda>xs ys. None),
       sort_positions = sample_sort_positions \<rparr>"

definition sample_now :: int where
  "sample_now = 63929382000000000"

text \<open>
  Three donor records: one whose last gift is dated 100 days before the clock, one
  whose date carries a UTC offset, and one without a date. Then three records with the
  amounts 100, \<^verbatim>\<open>"nan"\<close> and 200.
\<close>

definition donor_100 :: pydict where
  "donor_100 = [(''name'', PStr ''A''), (''last_gift_amount'', PInt 100)]"

definition donor_nan :: pydict where
  "donor_nan = [(''name'', PStr ''B''), (''last_gift_amount'', PStr ''nan'')]"

definition donor_200 :: pydict where
  "donor_200 = [(''name'', PStr ''C''), (''last_gift_amount'', PInt 200)]"

definition nan_store :: store where
  "nan_store = [donor_100, donor_nan, donor_200]"

definition donor_naive :: pydict where
  "donor_naive =
     [(''name'', PStr ''TechCorp Inc.''), (''type'', PStr ''organization''),
      (''industry'', PStr ''Technology''), (''last_gift_amount'', PInt 20000),
      (''last_gift_date'', PStr ''2026-07-27''), (''region'', PStr ''NY, USA'')]"

definition donor_aware :: pydict where
  "donor_aware =
     [(''name'', PStr ''FinanceWorks LLC''), (''type'', PStr ''organization''),
      (''industry'', PStr ''Finance''), (''last_gift_amount'', PInt 15000),
      (''last_gift_date'', PStr ''2026-07-27T00:00:00+00:00''), (''region'', PStr ''NY, USA'')]"

definition donor_undated :: pydict where
  "donor_undated =
     [(''name'', PStr ''Alumni Jane Doe''), (''type'', PStr ''individual''),
      (''industry'', PStr ''Education''), (''last_gift_amount'', PInt 15000),
      (''region'', PStr ''Boston, USA'')]"

definition sample_store :: store where
  "sample_store = [donor_naive, donor_aware, donor_undated]"

section \<open>Properties of the Award Lifecycle Tracker\<close>

lemma dict_get_details:
  "dict_get (details_or_empty (Some d)) k PNone = (case map_of d k of None \<Rightarrow> PNone | Some v \<Rightarrow> v)"
  "dict_get (details_or_empty None) k PNone = PNone"
  by (simp_all add: dict_get_def details_or_empty_def)

lemma tracker_session_map:
  "tracker_session calls = map (\<lambda>(award_id, action, details). deposit_tracker award_id action details) calls"
  by (induction calls rule: tracker_session.induct) simp_all

text \<open>
  Claim C2. The reply to a call is a function of the arguments of that call alone:
  whatever calls came before it in a session, the reply is that of the single call.
  In particular the reply to \<^verbatim>\<open>record_deposit\<close>, sent after \<^verbatim>\<open>register_award\<close> for
  the same award, holds the three items \<^verbatim>\<open>award_id\<close>, \<^verbatim>\<open>status\<close> (``Deposit
  Recorded'') and \<^verbatim>\<open>deposit_amount\<close>, and neither the status ``Registered'' nor an
  item \<^verbatim>\<open>amount_awarded\<close>.
\<close>

theorem tracker_session_no_memory:
  "tracker_session (prior @ [(award_id, action, details)]) ! length prior
     = deposit_tracker award_id action details
   \<and> tracker_session
         (prior @ [(award_id, ''register_award'', registered), (award_id, ''record_deposit'', details)])
       ! Suc (length prior)
     = [(''award_id'', PStr award_id),
        (''status'', PStr ''Deposit Recorded''),
        (''deposit_amount'', dict_get (details_or_empty details) ''deposit_amount'' PNone)]
   \<and> map_of (deposit_tracker award_id ''record_deposit'' details) ''amount_awarded'' = None
   \<and> map_of (deposit_tracker award_id ''record_deposit'' details) ''status''
       \<noteq> Some (PStr ''Registered'')"
  by (simp add: tracker_session_map nth_append deposit_tracker_def)

text \<open>
  Claim C3. Each of the four recognised actions gives its status string and echoes its
  detail field, which is \<^verbatim>\<open>None\<close> when the field is missing or when no details are
  passed; every other action gives the status ``Unknown action'' and echoes the
  details payload as it is. No case is an error.
\<close>

theorem deposit_tracker_actions:
  "deposit_tracker a ''register_award'' (Some d)
     = [(''award_id'', PStr a), (''status'', PStr ''Registered''),
        (''amount_awarded'', case map_of d ''amount_awarded'' of None \<Rightarrow> PNone | Some v \<Rightarrow> v)]
   \<and> deposit_tracker a ''record_deposit'' (Some d)
     = [(''award_id'', PStr a), (''status'', PStr ''Deposit Recorded''),
        (''deposit_amount'', case map_of d ''deposit_amount'' of None \<Rightarrow> PNone | Some v \<Rightarrow> v)]
   \<and> deposit_tracker a ''allocate_funds'' (Some d)
     = [(''award_id'', PStr a), (''status'', PStr ''Funds Allocated''),
        (''allocation_details'',
           case map_of d ''allocation_details'' of None \<Rightarrow> PNone | Some v \<Rightarrow> v)]
   \<and> deposit_tracker a ''report_outcome'' (Some d)
     = [(''award_id'', PStr a), (''status'', PStr ''Report Submitted''),
        (''outcome_details'', case map_of d ''outcome_details'' of None \<Rightarrow> PNone | Some v \<Rightarrow> v)]
   \<and> deposit_tracker a ''register_award'' None
     = [(''award_id'', PStr a), (''status'', PStr ''Registered''), (''amount_awarded'', PNone)]
   \<and> deposit_tracker a ''record_deposit'' None
     = [(''award_id'', PStr a), (''status'', PStr ''Deposit Recorded''), (''deposit_amount'', PNone)]
   \<and> deposit_tracker a ''allocate_funds'' None
     = [(''award_id'', PStr a), (''status'', PStr ''Funds Allocated''),
        (''allocation_details'', PNone)]
   \<and> deposit_tracker a ''report_outcome'' None
     = [(''award_id'', PStr a), (''status'', PStr ''Report Submitted''),
        (''outcome_details'', PNone)]
   \<and> (action \<notin> {''register_award'', ''record_deposit'', ''allocate_funds'', ''report_outcome''}
        \<longrightarrow> deposit_tracker a action (Some d)
              = [(''award_id'', PStr a), (''status'', PStr ''Unknown action''),
                 (''details'', PDict d)]
          \<and> deposit_tracker a action None
              = [(''award_id'', PStr a), (''status'', PStr ''Unknown action''),
                 (''details'', PNone)])"
  by (simp add: deposit_tracker_def dict_get_details details_val_def)

theorem deposit_tracker_actions_witness:
  "''bogus'' \<notin> {''register_award'', ''record_deposit'', ''allocate_funds'', ''report_outcome''}
   \<and> deposit_tracker ''AWD-001'' ''bogus'' (Some [(''amount_awarded'', PInt 25000)])
       = [(''award_id'', PStr ''AWD-001''), (''status'', PStr ''Unknown action''),
          (''details'', PDict [(''amount_awarded'', PInt 25000)])]
   \<and> deposit_tracker ''AWD-001'' ''register_award'' (Some [(''amount_awarded'', PInt 25000)])
       = [(''award_id'', PStr ''AWD-001''), (''status'', PStr ''Registered''),
          (''amount_awarded'', PInt 25000)]"
  using deposit_tracker_actions
          [of "''AWD-001''" "[(''amount_awarded'', PInt 25000)]" "''bogus''"]
  by simp

section \<open>Properties of the Opportunity Generator\<close>

lemma date_of_add_days: "date_of (t + k * us_per_day) = date_of t + k"
  by (simp add: date_of_def us_per_day_def)

lemma datetime_add_days_result: "datetime_add_days t k = Inr t' \<Longrightarrow> t' = t + k * us_per_day"
  by (auto simp: datetime_add_days_def split: if_splits)

lemma deadline_result:
  "deadline lib now i = Inr dl \<Longrightarrow> dl = isoformat lib (date_of now + (90 + 15 * int i))"
proof -
  assume a: "deadline lib now i = Inr dl"
  then obtain t where t: "datetime_add_days now (90 + int i * 15) = Inr t"
    and dl: "dl = isoformat lib (date_of t)"
    by (auto simp: deadline_def split: sum.splits)
  from datetime_add_days_result [OF t] have "date_of t = date_of now + (90 + int i * 15)"
    by (simp add: date_of_add_days)
  with dl show ?thesis by (simp add: mult.commute)
qed

lemma datetime_add_days_error: "datetime_add_days t k = Inl e \<Longrightarrow> e = OverflowError"
  by (auto simp: datetime_add_days_def split: if_splits)

lemma datetime_add_days_fits:
  assumes "valid_datetime t" and "0 \<le> k" and "date_of t + k \<le> max_ordinal"
  shows "datetime_add_days t k = Inr (t + k * us_per_day)"
proof -
  have "t < (t div us_per_day + 1) * us_per_day"
    using div_mult_mod_eq [of t us_per_day] pos_mod_bound [of us_per_day t]
    by (simp add: us_per_day_def algebra_simps)
  then have "t + k * us_per_day < (t div us_per_day + 1 + k) * us_per_day"
    by (simp add: algebra_simps)
  also have "\<dots> \<le> max_ordinal * us_per_day"
    using assms(3) by (simp add: date_of_def us_per_day_def)
  finally have upper: "t + k * us_per_day < max_ordinal * us_per_day" .
  have lower: "0 \<le> t + k * us_per_day"
    using assms(1,2) by (simp add: valid_datetime_def us_per_day_def)
  have "0 \<le> t div us_per_day"
    using assms(1) by (simp add: valid_datetime_def us_per_day_def pos_imp_zdiv_nonneg_iff)
  then have "k \<le> 999999999"
    using assms(3) by (simp add: date_of_def max_ordinal_def)
  then show ?thesis
    using assms(2) lower upper by (simp add: datetime_add_days_def valid_datetime_def)
qed

lemma datetime_add_days_overflow:
  assumes "max_ordinal < date_of t + k"
  shows "datetime_add_days t k = Inl OverflowError"
proof -
  have "(t div us_per_day) * us_per_day \<le> t"
    using div_mult_mod_eq [of t us_per_day] pos_mod_sign [of us_per_day t]
    by (simp add: us_per_day_def algebra_simps)
  moreover have "max_ordinal * us_per_day \<le> (t div us_per_day + k) * us_per_day"
    using assms by (simp add: date_of_def us_per_day_def)
  ultimately have "max_ordinal * us_per_day \<le> t + k * us_per_day"
    by (simp add: algebra_simps)
  then show ?thesis
    by (simp add: datetime_add_days_def valid_datetime_def)
qed

lemma opportunity_error: "opportunity lib now kws region i = Inl e \<Longrightarrow> e = OverflowError"
  by (auto simp: opportunity_def deadline_def split: sum.splits dest: datetime_add_days_error)

lemma opportunity_fits:
  assumes "valid_datetime now" and "date_of now + (90 + 15 * int i) \<le> max_ordinal"
  shows "\<exists>r. opportunity lib now kws region i = Inr r"
  using datetime_add_days_fits [OF assms(1), of "90 + int i * 15"] assms(2)
  by (simp add: opportunity_def deadline_def mult.commute)

lemma opportunity_overflow:
  assumes "max_ordinal < date_of now + (90 + 15 * int i)"
  shows "opportunity lib now kws region i = Inl OverflowError"
  using datetime_add_days_overflow [of now "90 + int i * 15"] assms
  by (simp add: opportunity_def deadline_def mult.commute)

lemma opportunity_record:
  assumes "opportunity lib now kws region i = Inr r"
  shows "r = [(''funder_name'', PStr (''Example Foundation '' @ str_of_int (int i + 1))),
              (''mission_focus'', PStr (''Focus on: '' @ kws)),
              (''award_size_min'', PInt (5000 + 1000 * int i)),
              (''award_size_max'', PInt (25000 + 2000 * int i)),
              (''deadline'', PStr (isoformat lib (date_of now + (90 + 15 * int i)))),
              (''geographic_restriction'', PStr region),
              (''eligibility'',
                 PStr ''501(c)(3) non-profit organisation supporting women scholars''),
              (''url'',
                 PStr (''https://examplefoundation.org/apply/'' @ str_of_int (int i + 1)))]"
  using assms
  by (auto simp: opportunity_def split: sum.splits dest!: deadline_result)

lemma opportunity_fields:
  assumes "opportunity lib now kws region i = Inr r"
  shows "map_of r ''award_size_min'' = Some (PInt (5000 + 1000 * int i))"
    and "map_of r ''award_size_max'' = Some (PInt (25000 + 2000 * int i))"
    and "map_of r ''deadline'' = Some (PStr (isoformat lib (date_of now + (90 + 15 * int i))))"
  using assms
  by (auto simp: opportunity_def split: sum.splits dest!: deadline_result)

lemma grant_loop_error:
  "grant_loop lib now kws region is results = Inl e \<Longrightarrow> e = OverflowError"
  by (induction "is" arbitrary: results) (auto split: sum.splits dest: opportunity_error)

lemma grant_loop_result:
  "grant_loop lib now kws region is results = Inr rs \<Longrightarrow>
     length rs = length results + length is
     \<and> take (length results) rs = results
     \<and> (\<forall>k < length is. opportunity lib now kws region (is ! k) = Inr (rs ! (length results + k)))"
proof (induction "is" arbitrary: results)
  case Nil
  then show ?case by simp
next
  case (Cons i "is")
  from Cons.prems obtain r where r: "opportunity lib now kws region i = Inr r"
    and rest: "grant_loop lib now kws region is (results @ [r]) = Inr rs"
    by (auto split: sum.splits)
  from Cons.IH [OF rest]
  have len: "length rs = length results + 1 + length is"
    and tk: "take (length results + 1) rs = results @ [r]"
    and nth: "\<forall>k < length is. opportunity lib now kws region (is ! k) = Inr (rs ! (length results + 1 + k))"
    by simp_all
  have tk': "take (length results) rs = results"
    using arg_cong [OF tk, of "take (length results)"] by (simp add: min_def)
  have "rs ! length results = (results @ [r]) ! length results"
    using arg_cong [OF tk, of "\<lambda>xs. xs ! length results"] len by simp
  then have r0: "rs ! length results = r" by simp
  show ?case
  proof (intro conjI allI impI)
    show "length rs = length results + length (i # is)" using len by simp
    show "take (length results) rs = results" by (rule tk')
    fix k assume "k < length (i # is)"
    then show "opportunity lib now kws region ((i # is) ! k) = Inr (rs ! (length results + k))"
      using nth r r0 by (cases k) auto
  qed
qed

lemma grant_loop_total:
  "(\<forall>i \<in> set is. \<exists>r. opportunity lib now kws region i = Inr r) \<Longrightarrow>
     \<exists>rs. grant_loop lib now kws region is results = Inr rs"
  by (induction "is" arbitrary: results) (auto split: sum.splits)

lemma grant_search_result:
  assumes "grant_search lib now kws region n = Inr rs"
  shows "length rs = nat (max 1 n)"
    and "i < length rs \<Longrightarrow> opportunity lib now (keywords_str kws) region i = Inr (rs ! i)"
proof -
  have loop: "grant_loop lib now (keywords_str kws) region [0..<nat (max 1 n)] [] = Inr rs"
    using assms by (simp add: grant_search_def)
  from grant_loop_result [OF loop] show len: "length rs = nat (max 1 n)" by simp
  assume "i < length rs"
  with grant_loop_result [OF loop] len
  show "opportunity lib now (keywords_str kws) region i = Inr (rs ! i)" by simp
qed

text \<open>
  Claim C4, amended. The generator returns exactly \<open>max(1, max_results)\<close> records,
  that is \<open>max_results\<close> of them when \<open>max_results \<ge> 1\<close> and one when
  \<open>max_results \<le> 0\<close>, as long as the last deadline, \<open>90 + 15 (max(1, max_results) - 1)\<close>
  days after today, is not after 9999-12-31; when it is, the call raises
  \<^verbatim>\<open>OverflowError\<close> and returns nothing.
\<close>

theorem grant_search_count:
  assumes "valid_datetime now"
  shows "(date_of now + (90 + 15 * (max 1 n - 1)) \<le> max_ordinal \<longrightarrow>
            (\<exists>rs. grant_search lib now kws region n = Inr rs
                  \<and> (1 \<le> n \<longrightarrow> int (length rs) = n) \<and> (n \<le> 0 \<longrightarrow> length rs = 1)))
         \<and> (max_ordinal < date_of now + (90 + 15 * (max 1 n - 1)) \<longrightarrow>
              grant_search lib now kws region n = Inl OverflowError)"
proof (intro conjI impI)
  assume fits: "date_of now + (90 + 15 * (max 1 n - 1)) \<le> max_ordinal"
  have "\<forall>i \<in> set [0..<nat (max 1 n)]. \<exists>r. opportunity lib now (keywords_str kws) region i = Inr r"
  proof
    fix i assume "i \<in> set [0..<nat (max 1 n)]"
    then have "int i \<le> max 1 n - 1" by auto
    then have "date_of now + (90 + 15 * int i) \<le> max_ordinal" using fits by simp
    then show "\<exists>r. opportunity lib now (keywords_str kws) region i = Inr r"
      by (rule opportunity_fits [OF assms])
  qed
  from grant_loop_total [OF this] obtain rs
    where rs: "grant_search lib now kws region n = Inr rs"
    by (auto simp: grant_search_def)
  from grant_search_result(1) [OF rs] have "length rs = nat (max 1 n)" .
  then have "(1 \<le> n \<longrightarrow> int (length rs) = n) \<and> (n \<le> 0 \<longrightarrow> length rs = 1)" by auto
  with rs show "\<exists>rs. grant_search lib now kws region n = Inr rs
      \<and> (1 \<le> n \<longrightarrow> int (length rs) = n) \<and> (n \<le> 0 \<longrightarrow> length rs = 1)" by blast
next
  assume over: "max_ordinal < date_of now + (90 + 15 * (max 1 n - 1))"
  show "grant_search lib now kws region n = Inl OverflowError"
  proof (cases "grant_search lib now kws region n")
    case (Inl e)
    then have "e = OverflowError" by (auto simp: grant_search_def dest: grant_loop_error)
    with Inl show ?thesis by simp
  next
    case (Inr rs)
    let ?i = "nat (max 1 n) - 1"
    have len: "length rs = nat (max 1 n)" by (rule grant_search_result(1) [OF Inr])
    then have "?i < length rs" by simp
    from grant_search_result(2) [OF Inr this]
    have ok: "opportunity lib now (keywords_str kws) region ?i = Inr (rs ! ?i)" .
    have "int ?i = max 1 n - 1" by simp
    with over have "max_ordinal < date_of now + (90 + 15 * int ?i)" by simp
    from opportunity_overflow [OF this] ok show ?thesis by simp
  qed
qed

text \<open>
  With the clock at 2026-11-04, a request for two records fits and is served, and a
  request for 300000 records does not fit.
\<close>

theorem grant_search_count_witness:
  "valid_datetime sample_now
   \<and> date_of sample_now + (90 + 15 * (max 1 2 - 1)) \<le> max_ordinal
   \<and> (\<exists>rs. grant_search sample_lib sample_now [] ''NY, USA'' 2 = Inr rs \<and> length rs = 2)
   \<and> max_ordinal < date_of sample_now + (90 + 15 * (max 1 300000 - 1))
   \<and> grant_search sample_lib sample_now [] ''NY, USA'' 300000 = Inl OverflowError"
proof -
  have v: "valid_datetime sample_now"
    by (simp add: valid_datetime_def sample_now_def max_ordinal_def us_per_day_def)
  have d: "date_of sample_now = 739924"
    by (simp add: date_of_def sample_now_def us_per_day_def)
  show ?thesis
    using v d grant_search_count [OF v, of 2 sample_lib "[]" "''NY, USA''"]
      grant_search_count [OF v, of 300000 sample_lib "[]" "''NY, USA''"]
    by (auto simp: max_ordinal_def)
qed

text \<open>
  Claim C4 as stated fails: with the clock at 2026-11-04T09:40:00, the call
  \<^verbatim>\<open>grant_search([], "NY, USA", 300000)\<close> raises \<^verbatim>\<open>OverflowError\<close> (the deadline of
  record 194137 would fall after 9999-12-31) instead of returning 300000 records.
\<close>

theorem grant_search_count_counterexample:
  "grant_search sample_lib sample_now [] ''NY, USA'' 300000 = Inl OverflowError"
proof -
  have "max_ordinal < date_of sample_now + (90 + 15 * int 194137)"
    by (simp add: date_of_def sample_now_def us_per_day_def max_ordinal_def)
  then have over: "opportunity sample_lib sample_now (keywords_str []) ''NY, USA'' 194137
      = Inl OverflowError"
    by (rule opportunity_overflow)
  show ?thesis
  proof (cases "grant_search sample_lib sample_now [] ''NY, USA'' 300000")
    case (Inl e)
    then have "e = OverflowError" by (auto simp: grant_search_def dest: grant_loop_error)
    with Inl show ?thesis by simp
  next
    case (Inr rs)
    have "length rs = nat (max 1 300000)" by (rule grant_search_result(1) [OF Inr])
    then have "194137 < length rs" by simp
    from grant_search_result(2) [OF Inr this] over show ?thesis by simp
  qed
qed

text \<open>
  Claim C5. In a returned list, every record \<open>k\<close> is the dict of its index: its
  \<^verbatim>\<open>award_size_min\<close> is \<open>5000 + 1000 k\<close>, its \<^verbatim>\<open>award_size_max\<close> is \<open>25000 + 2000 k\<close>
  and its \<^verbatim>\<open>deadline\<close> is the ISO form of the day \<open>90 + 15 k\<close> days after today. So
  from every earlier record \<open>i < k\<close> to record \<open>k\<close> the minimum, the maximum and the
  day of the deadline strictly increase.
\<close>

theorem grant_search_records:
  assumes "grant_search lib now kws region n = Inr rs" and "k < length rs"
  shows "rs ! k =
           [(''funder_name'', PStr (''Example Foundation '' @ str_of_int (int k + 1))),
            (''mission_focus'', PStr (''Focus on: '' @ keywords_str kws)),
            (''award_size_min'', PInt (5000 + 1000 * int k)),
            (''award_size_max'', PInt (25000 + 2000 * int k)),
            (''deadline'', PStr (isoformat lib (date_of now + (90 + 15 * int k)))),
            (''geographic_restriction'', PStr region),
            (''eligibility'',
               PStr ''501(c)(3) non-profit organisation supporting women scholars''),
            (''url'',
               PStr (''https://examplefoundation.org/apply/'' @ str_of_int (int k + 1)))]
         \<and> (\<forall>i < k.
               map_of (rs ! i) ''award_size_min'' = Some (PInt (5000 + 1000 * int i))
               \<and> map_of (rs ! k) ''award_size_min'' = Some (PInt (5000 + 1000 * int k))
               \<and> 5000 + 1000 * int i < 5000 + 1000 * int k
               \<and> map_of (rs ! i) ''award_size_max'' = Some (PInt (25000 + 2000 * int i))
               \<and> map_of (rs ! k) ''award_size_max'' = Some (PInt (25000 + 2000 * int k))
               \<and> 25000 + 2000 * int i < 25000 + 2000 * int k
               \<and> map_of (rs ! i) ''deadline''
                   = Some (PStr (isoformat lib (date_of now + (90 + 15 * int i))))
               \<and> map_of (rs ! k) ''deadline''
                   = Some (PStr (isoformat lib (date_of now + (90 + 15 * int k))))
               \<and> date_of now + (90 + 15 * int i) < date_of now + (90 + 15 * int k))"
proof -
  have ok: "opportunity lib now (keywords_str kws) region k = Inr (rs ! k)"
    using assms by (intro grant_search_result(2)) auto
  have rec: "rs ! k =
           [(''funder_name'', PStr (''Example Foundation '' @ str_of_int (int k + 1))),
            (''mission_focus'', PStr (''Focus on: '' @ keywords_str kws)),
            (''award_size_min'', PInt (5000 + 1000 * int k)),
            (''award_size_max'', PInt (25000 + 2000 * int k)),
            (''deadline'', PStr (isoformat lib (date_of now + (90 + 15 * int k)))),
            (''geographic_restriction'', PStr region),
            (''eligibility'',
               PStr ''501(c)(3) non-profit organisation supporting women scholars''),
            (''url'',
               PStr (''https://examplefoundation.org/apply/'' @ str_of_int (int k + 1)))]"
    by (rule opportunity_record [OF ok])
  have "map_of (rs ! i) ''award_size_min'' = Some (PInt (5000 + 1000 * int i))
      \<and> map_of (rs ! k) ''award_size_min'' = Some (PInt (5000 + 1000 * int k))
      \<and> 5000 + 1000 * int i < 5000 + 1000 * int k
      \<and> map_of (rs ! i) ''award_size_max'' = Some (PInt (25000 + 2000 * int i))
      \<and> map_of (rs ! k) ''award_size_max'' = Some (PInt (25000 + 2000 * int k))
      \<and> 25000 + 2000 * int i < 25000 + 2000 * int k
      \<and> map_of (rs ! i) ''deadline''
          = Some (PStr (isoformat lib (date_of now + (90 + 15 * int i))))
      \<and> map_of (rs ! k) ''deadline''
          = Some (PStr (isoformat lib (date_of now + (90 + 15 * int k))))
      \<and> date_of now + (90 + 15 * int i) < date_of now + (90 + 15 * int k)"
    if "i < k" for i
  proof -
    have oi: "opportunity lib now (keywords_str kws) region i = Inr (rs ! i)"
      using assms that by (intro grant_search_result(2)) auto
    from opportunity_fields [OF oi] opportunity_fields [OF ok] that show ?thesis by simp
  qed
  with rec show ?thesis by blast
qed

text \<open>
  A request for two records, at its record 1, and a request for \<open>-3\<close> records, which
  gives one record, at its record 0.
\<close>

theorem grant_search_records_witness:
  "grant_search sample_lib sample_now [''women leadership scholarships''] ''NY, USA'' 2
     = Inr [[(''funder_name'', PStr ''Example Foundation 1''),
             (''mission_focus'', PStr ''Focus on: women leadership scholarships''),
             (''award_size_min'', PInt 5000), (''award_size_max'', PInt 25000),
             (''deadline'', PStr ''2027-02-02''),
             (''geographic_restriction'', PStr ''NY, USA''),
             (''eligibility'',
                PStr ''501(c)(3) non-profit organisation supporting women scholars''),
             (''url'', PStr ''https://examplefoundation.org/apply/1'')],
            [(''funder_name'', PStr ''Example Foundation 2''),
             (''mission_focus'', PStr ''Focus on: women leadership scholarships''),
             (''award_size_min'', PInt 6000), (''award_size_max'', PInt 27000),
             (''deadline'', PStr ''2027-02-17''),
             (''geographic_restriction'', PStr ''NY, USA''),
             (''eligibility'',
                PStr ''501(c)(3) non-profit organisation supporting women scholars''),
             (''url'', PStr ''https://examplefoundation.org/apply/2'')]]
   \<and> isoformat sample_lib (date_of sample_now + (90 + 15 * int 1)) = ''2027-02-17''
   \<and> grant_search sample_lib sample_now [] ''NY, USA'' (- 3)
     = Inr [[(''funder_name'', PStr ''Example Foundation 1''),
             (''mission_focus'', PStr ''Focus on: general mission alignment''),
             (''award_size_min'', PInt 5000), (''award_size_max'', PInt 25000),
             (''deadline'', PStr ''2027-02-02''),
             (''geographic_restriction'', PStr ''NY, USA''),
             (''eligibility'',
                PStr ''501(c)(3) non-profit organisation supporting women scholars''),
             (''url'', PStr ''https://examplefoundation.org/apply/1'')]]
   \<and> isoformat sample_lib (date_of sample_now + (90 + 15 * int 0)) = ''2027-02-02''"
proof -
  let ?r0 = "[(''funder_name'', PStr ''Example Foundation 1''),
             (''mission_focus'', PStr ''Focus on: women leadership scholarships''),
             (''award_size_min'', PInt 5000), (''award_size_max'', PInt 25000),
             (''deadline'', PStr ''2027-02-02''),
             (''geographic_restriction'', PStr ''NY, USA''),
             (''eligibility'',
                PStr ''501(c)(3) non-profit organisation supporting women scholars''),
             (''url'', PStr ''https://examplefoundation.org/apply/1'')]"
  let ?r1 = "[(''funder_name'', PStr ''Example Foundation 2''),
             (''mission_focus'', PStr ''Focus on: women leadership scholarships''),
             (''award_size_min'', PInt 6000), (''award_size_max'', PInt 27000),
             (''deadline'', PStr ''2027-02-17''),
             (''geographic_restriction'', PStr ''NY, USA''),
             (''eligibility'',
                PStr ''501(c)(3) non-profit organisation supporting women scholars''),
             (''url'', PStr ''https://examplefoundation.org/apply/2'')]"
  let ?s0 = "[(''funder_name'', PStr ''Example Foundation 1''),
             (''mission_focus'', PStr ''Focus on: general mission alignment''),
             (''award_size_min'', PInt 5000), (''award_size_max'', PInt 25000),
             (''deadline'', PStr ''2027-02-02''),
             (''geographic_restriction'', PStr ''NY, USA''),
             (''eligibility'',
                PStr ''501(c)(3) non-profit organisation supporting women scholars''),
             (''url'', PStr ''https://examplefoundation.org/apply/1'')]"
  have run2: "grant_search sample_lib sample_now [''women leadership scholarships''] ''NY, USA'' 2
      = Inr [?r0, ?r1]"
    by code_simp
  have run1: "grant_search sample_lib sample_now [] ''NY, USA'' (- 3) = Inr [?s0]"
    by code_simp
  from grant_search_records [OF run2, of 1] grant_search_records [OF run1, of 0] run2 run1
  show ?thesis by simp
qed

section \<open>Properties of the Donor Scorer\<close>

subsection \<open>The score of one record\<close>

lemma recency_bonus_naive:
  assumes "truthy (dict_get d ''last_gift_date'' PNone)"
    and "fromisoformat lib (py_str lib (dict_get d ''last_gift_date'' PNone)) = Some (Naive t)"
  shows "recency_bonus lib now d = int_truediv lib 1000 (max 1 ((now - t) div us_per_day))"
  using assms by (simp add: recency_bonus_def Let_def)

lemma recency_bonus_zero:
  assumes "\<not> truthy (dict_get d ''last_gift_date'' PNone)
           \<or> fromisoformat lib (py_str lib (dict_get d ''last_gift_date'' PNone)) = None
           \<or> fromisoformat lib (py_str lib (dict_get d ''last_gift_date'' PNone)) = Some (Aware t off)"
  shows "recency_bonus lib now d = Fin 0"
  using assms by (auto simp: recency_bonus_def Let_def)

text \<open>
  Claim C1, amended. Let \<open>base\<close> be the float of the record's \<^verbatim>\<open>last_gift_amount\<close>
  (0 when the field is missing or falsy). When \<^verbatim>\<open>last_gift_date\<close> is non-empty and
  parses as a datetime without a UTC offset, the score is \<open>0.5 base\<close> plus
  \<open>1000 / max(1, days)\<close>, rounded to two decimals, where \<open>days\<close> is the whole number
  of days from that datetime to now. When the date is absent, empty or unparseable,
  and also when it parses as a datetime with a UTC offset, the bonus is 0 and the
  score is \<open>0.5 base\<close> rounded to two decimals. The date never makes the call fail:
  the score is an error only when the amount cannot be converted to a float.
\<close>

theorem donor_score_formula:
  "(py_float lib (py_or (dict_get d ''last_gift_amount'' (PInt 0)) (PInt 0)) = Inr base
      \<and> truthy (dict_get d ''last_gift_date'' PNone)
      \<and> fromisoformat lib (py_str lib (dict_get d ''last_gift_date'' PNone)) = Some (Naive t)
    \<longrightarrow> donor_score lib now d
          = Inr (round2 lib (fadd lib (fmul lib base (Fin (1 / 2)))
                   (int_truediv lib 1000 (max 1 ((now - t) div us_per_day))))))
   \<and> (py_float lib (py_or (dict_get d ''last_gift_amount'' (PInt 0)) (PInt 0)) = Inr base
      \<and> (\<not> truthy (dict_get d ''last_gift_date'' PNone)
         \<or> fromisoformat lib (py_str lib (dict_get d ''last_gift_date'' PNone)) = None
         \<or> fromisoformat lib (py_str lib (dict_get d ''last_gift_date'' PNone))
             = Some (Aware t off))
    \<longrightarrow> donor_score lib now d
          = Inr (round2 lib (fadd lib (fmul lib base (Fin (1 / 2))) (Fin 0))))
   \<and> (donor_score lib now d = Inl e
    \<longleftrightarrow> py_float lib (py_or (dict_get d ''last_gift_amount'' (PInt 0)) (PInt 0)) = Inl e)"
proof (intro conjI impI)
  assume "py_float lib (py_or (dict_get d ''last_gift_amount'' (PInt 0)) (PInt 0)) = Inr base
      \<and> truthy (dict_get d ''last_gift_date'' PNone)
      \<and> fromisoformat lib (py_str lib (dict_get d ''last_gift_date'' PNone)) = Some (Naive t)"
  then show "donor_score lib now d
          = Inr (round2 lib (fadd lib (fmul lib base (Fin (1 / 2)))
                   (int_truediv lib 1000 (max 1 ((now - t) div us_per_day)))))"
    by (simp add: donor_score_def recency_bonus_naive)
next
  assume a: "py_float lib (py_or (dict_get d ''last_gift_amount'' (PInt 0)) (PInt 0)) = Inr base
      \<and> (\<not> truthy (dict_get d ''last_gift_date'' PNone)
         \<or> fromisoformat lib (py_str lib (dict_get d ''last_gift_date'' PNone)) = None
         \<or> fromisoformat lib (py_str lib (dict_get d ''last_gift_date'' PNone))
             = Some (Aware t off))"
  then have "recency_bonus lib now d = Fin 0"
    by (intro recency_bonus_zero [of d lib t off]) simp
  with a show "donor_score lib now d
          = Inr (round2 lib (fadd lib (fmul lib base (Fin (1 / 2))) (Fin 0)))"
    by (simp add: donor_score_def)
next
  show "donor_score lib now d = Inl e
    \<longleftrightarrow> py_float lib (py_or (dict_get d ''last_gift_amount'' (PInt 0)) (PInt 0)) = Inl e"
    by (simp add: donor_score_def split: sum.splits)
qed

text \<open>
  A gift of 20000 dated 100 days ago scores \<open>10000 + 1000 / 100 = 10010\<close>; a gift of
  15000 without a date scores 7500.
\<close>

theorem donor_score_formula_witness:
  "py_float sample_lib (py_or (dict_get donor_naive ''last_gift_amount'' (PInt 0)) (PInt 0))
     = Inr (Fin 20000)
   \<and> truthy (dict_get donor_naive ''last_gift_date'' PNone)
   \<and> fromisoformat sample_lib (py_str sample_lib (dict_get donor_naive ''last_gift_date'' PNone))
       = Some (Naive 63920707200000000)
   \<and> (sample_now - 63920707200000000) div us_per_day = 100
   \<and> donor_score sample_lib sample_now donor_naive = Inr (Fin 10010)
   \<and> py_float sample_lib (py_or (dict_get donor_undated ''last_gift_amount'' (PInt 0)) (PInt 0))
       = Inr (Fin 15000)
   \<and> \<not> truthy (dict_get donor_undated ''last_gift_date'' PNone)
   \<and> donor_score sample_lib sample_now donor_undated = Inr (Fin 7500)"
proof -
  have a1: "py_float sample_lib (py_or (dict_get donor_naive ''last_gift_amount'' (PInt 0)) (PInt 0))
      = Inr (Fin 20000)"
    by (simp add: donor_naive_def dict_get_def py_or_def float_of_int_def sample_lib_def)
  have a2: "truthy (dict_get donor_naive ''last_gift_date'' PNone)"
    by (simp add: donor_naive_def dict_get_def)
  have a3: "fromisoformat sample_lib
      (py_str sample_lib (dict_get donor_naive ''last_gift_date'' PNone))
      = Some (Naive 63920707200000000)"
    by (simp add: donor_naive_def dict_get_def sample_lib_def sample_fromisoformat_def)
  have a4: "(sample_now - 63920707200000000) div us_per_day = 100"
    by (simp add: sample_now_def us_per_day_def)
  have b1: "py_float sample_lib
      (py_or (dict_get donor_undated ''last_gift_amount'' (PInt 0)) (PInt 0)) = Inr (Fin 15000)"
    by (simp add: donor_undated_def dict_get_def py_or_def float_of_int_def sample_lib_def)
  have b2: "\<not> truthy (dict_get donor_undated ''last_gift_date'' PNone)"
    by (simp add: donor_undated_def dict_get_def)
  have r1: "round2 sample_lib (fadd sample_lib (fmul sample_lib (Fin 20000) (Fin (1 / 2)))
      (int_truediv sample_lib 1000 (max 1 100))) = Fin 10010"
    by (simp add: int_truediv_def sample_lib_def round_half_even_def)
  have r2: "round2 sample_lib (fadd sample_lib (fmul sample_lib (Fin 15000) (Fin (1 / 2))) (Fin 0))
      = Fin 7500"
    by (simp add: sample_lib_def round_half_even_def)
  show ?thesis
    using a1 a2 a3 a4 b1 b2 r1 r2
      donor_score_formula [of sample_lib donor_naive "Fin 20000" 63920707200000000 sample_now]
      donor_score_formula [of sample_lib donor_undated "Fin 15000" _ sample_now]
    by simp
qed

text \<open>
  Claim C1 as stated fails: the date \<^verbatim>\<open>2026-07-27T00:00:00+00:00\<close> parses as a valid
  ISO date, 100 days before the clock, yet the record scores
  \<open>0.5 \<times> 15000 = 7500\<close> and not \<open>7500 + 1000 / 100 = 7510\<close>: subtracting the aware
  datetime from \<^verbatim>\<open>now()\<close> raises \<^verbatim>\<open>TypeError\<close>, which the \<^verbatim>\<open>except\<close> clause turns
  into a bonus of 0.
\<close>

theorem donor_score_formula_counterexample:
  "truthy (dict_get donor_aware ''last_gift_date'' PNone)
   \<and> fromisoformat sample_lib (py_str sample_lib (dict_get donor_aware ''last_gift_date'' PNone))
       = Some (Aware 63920707200000000 0)
   \<and> (sample_now - 63920707200000000) div us_per_day = 100
   \<and> donor_score sample_lib sample_now donor_aware = Inr (Fin 7500)
   \<and> round2 sample_lib (fadd sample_lib (fmul sample_lib (Fin 15000) (Fin (1 / 2)))
        (int_truediv sample_lib 1000 (max 1 100))) = Fin 7510"
  by (simp add: donor_aware_def dict_get_def sample_lib_def sample_fromisoformat_def
      sample_now_def us_per_day_def donor_score_def py_or_def float_of_int_def
      recency_bonus_def int_truediv_def round_half_even_def)

subsection \<open>The scoring loop on the store\<close>

lemma potential_score_update:
  "potential_score (h @ new) (length h + k) = q"
  if "k < length new" and "new ! k = AList.update ''potential_score'' (PFloat q) d"
  using that by (simp add: potential_score_def nth_append update_conv')

text \<open>
  What the loop does to the store: it appends one object per record it scores, the
  copy of that record with its score, and touches nothing else. When it ends without
  an exception, the references it returns are those of the new objects, in the order
  of the records.
\<close>

lemma score_loop_store:
  assumes "live h ds" and "score_loop lib now h ds scored = (h', res)"
  shows "\<exists>new. h' = h @ new \<and> length new \<le> length ds
           \<and> (\<forall>k < length new. \<exists>s. donor_score lib now (h ! (ds ! k)) = Inr s
                 \<and> new ! k = AList.update ''potential_score'' (PFloat s) (h ! (ds ! k)))
           \<and> (\<forall>out. res = Inr out \<longrightarrow>
                 length new = length ds \<and> out = scored @ [length h..<length h + length ds])"
  using assms
proof (induction ds arbitrary: h scored)
  case Nil
  then show ?case by auto
next
  case (Cons d ds)
  show ?case
  proof (cases "donor_score lib now (h ! d)")
    case (Inl e)
    with Cons.prems(2) have "h' = h" and "res = Inl e"
      by auto
    then show ?thesis by simp
  next
    case (Inr s)
    let ?c = "AList.update ''potential_score'' (PFloat s) (h ! d)"
    from Inr Cons.prems(2)
    have rest: "score_loop lib now (h @ [?c]) ds (scored @ [length h]) = (h', res)"
      by (simp add: dict_copy_def dict_setitem_def)
    have lv: "live (h @ [?c]) ds"
      using Cons.prems(1) by (auto simp: live_def list_all_iff)
    from Cons.IH [OF lv rest] obtain new where
      h': "h' = (h @ [?c]) @ new" and len: "length new \<le> length ds"
      and cells: "\<forall>k < length new. \<exists>s. donor_score lib now ((h @ [?c]) ! (ds ! k)) = Inr s
                 \<and> new ! k = AList.update ''potential_score'' (PFloat s) ((h @ [?c]) ! (ds ! k))"
      and out: "\<forall>out. res = Inr out \<longrightarrow> length new = length ds
                 \<and> out = (scored @ [length h]) @ [length (h @ [?c])..<length (h @ [?c]) + length ds]"
      by blast
    have old: "(h @ [?c]) ! (ds ! k) = h ! (ds ! k)" if "k < length ds" for k
      using Cons.prems(1) that by (simp add: live_def list_all_iff nth_append)
    have "h' = h @ (?c # new)" using h' by simp
    moreover have "length (?c # new) \<le> length (d # ds)" using len by simp
    moreover have "\<forall>k < length (?c # new). \<exists>s. donor_score lib now (h ! ((d # ds) ! k)) = Inr s
        \<and> (?c # new) ! k = AList.update ''potential_score'' (PFloat s) (h ! ((d # ds) ! k))"
    proof (intro allI impI)
      fix k assume k: "k < length (?c # new)"
      show "\<exists>s. donor_score lib now (h ! ((d # ds) ! k)) = Inr s
        \<and> (?c # new) ! k = AList.update ''potential_score'' (PFloat s) (h ! ((d # ds) ! k))"
      proof (cases k)
        case 0
        then show ?thesis using Inr by simp
      next
        case (Suc k')
        with k len have "k' < length new" and "k' < length ds" by simp_all
        with cells old Suc show ?thesis by auto
      qed
    qed
    moreover have "\<forall>out. res = Inr out \<longrightarrow> length (?c # new) = length (d # ds)
        \<and> out = scored @ [length h..<length h + length (d # ds)]"
    proof -
      have "[length h..<length h + length (d # ds)]
          = length h # [length (h @ [?c])..<length (h @ [?c]) + length ds]"
        by (subst upt_conv_Cons) simp_all
      with out show ?thesis by simp
    qed
    ultimately show ?thesis by blast
  qed
qed

lemma set_filter_donors:
  "set (filter_donors lib h past_donors industry_filter region) \<subseteq> set past_donors"
  by (auto simp: filter_donors_def Let_def split: option.splits)

lemma live_filter_donors:
  "live h past_donors \<Longrightarrow> live h (filter_donors lib h past_donors industry_filter region)"
  using set_filter_donors [of lib h past_donors industry_filter region]
  by (auto simp: live_def list_all_iff)

subsection \<open>The stable descending sort\<close>

lemma sorted_wrt_filter_nth:
  assumes "sorted_wrt R (filter P ys)" and "i < j" and "j < length ys"
    and "P (ys ! i)" and "P (ys ! j)"
  shows "R (ys ! i) (ys ! j)"
  using assms
proof (induction ys arbitrary: i j)
  case Nil
  then show ?case by simp
next
  case (Cons y ys)
  from Cons.prems(2) obtain j' where j: "j = Suc j'" by (cases j) auto
  with Cons.prems(3) have j': "j' < length ys" by simp
  have tail: "sorted_wrt R (filter P ys)"
    using Cons.prems(1) by (auto split: if_splits)
  show ?case
  proof (cases i)
    case 0
    with Cons.prems(4) have "P y" by simp
    with Cons.prems(1) have "\<forall>z \<in> set (filter P ys). R y z" by simp
    moreover have "ys ! j' \<in> set (filter P ys)"
      using j' Cons.prems(5) j by simp
    ultimately show ?thesis using 0 j by simp
  next
    case (Suc i')
    with Cons.prems j j' tail Cons.IH [of i' j'] show ?thesis by simp
  qed
qed

lemma stable_descending:
  fixes key :: "nat \<Rightarrow> 'k :: linorder"
  assumes "sorted_wrt (<) xs"
  shows "sorted_wrt (\<lambda>a b. key b < key a \<or> (key a = key b \<and> a < b))
           (rev (sort_key key (rev xs)))"
proof -
  let ?S = "sort_key key (rev xs)"
  have desc: "sorted_wrt (\<lambda>a b. b < a) (rev xs)"
    using assms by (simp add: sorted_wrt_rev)
  have "sorted_wrt (\<lambda>a b. key a < key b \<or> (key a = key b \<and> b < a)) ?S"
    unfolding sorted_wrt_iff_nth_less
  proof (intro allI impI)
    fix i j assume ij: "i < j" and j: "j < length ?S"
    have "sorted (map key ?S)" by (rule sorted_sort_key)
    then have le: "key (?S ! i) \<le> key (?S ! j)"
      using ij j by (simp add: sorted_iff_nth_mono)
    show "key (?S ! i) < key (?S ! j) \<or> (key (?S ! i) = key (?S ! j) \<and> ?S ! j < ?S ! i)"
    proof (cases "key (?S ! i) = key (?S ! j)")
      case False
      with le show ?thesis by simp
    next
      case True
      let ?P = "\<lambda>y. key y = key (?S ! j)"
      have "filter ?P ?S = filter ?P (rev xs)" by (rule sort_key_stable)
      moreover have "sorted_wrt (\<lambda>a b. b < a) (filter ?P (rev xs))"
        using desc by (rule sorted_wrt_filter)
      ultimately have "sorted_wrt (\<lambda>a b. b < a) (filter ?P ?S)" by simp
      from sorted_wrt_filter_nth [OF this ij j] True
      show ?thesis by simp
    qed
  qed
  then show ?thesis
    by (simp add: sorted_wrt_rev eq_commute [of "key _" "key _"])
qed

lemma float_lt_rank:
  "a \<noteq> NaN \<Longrightarrow> b \<noteq> NaN \<Longrightarrow> float_lt a b \<longleftrightarrow> sort_rank a < sort_rank b"
  by (cases a; cases b) simp_all

lemma sort_rank_eq: "sort_rank a = sort_rank b \<longleftrightarrow> a = b"
  by (cases a; cases b) simp_all

lemma sorted_reverse_stable:
  fixes key :: "nat \<Rightarrow> pyfloat"
  assumes "sorted_wrt (<) xs" and "\<forall>x \<in> set xs. key x \<noteq> NaN"
  shows "sorted_wrt (\<lambda>a b. float_lt (key b) (key a) \<or> (key a = key b \<and> a < b))
           (sorted_reverse lib key xs)"
proof -
  let ?out = "rev (sort_key (\<lambda>x. sort_rank (key x)) (rev xs))"
  have out: "sorted_reverse lib key xs = ?out"
    using assms(2) by (simp add: sorted_reverse_def list_all_iff)
  have "sorted_wrt (\<lambda>a b. sort_rank (key b) < sort_rank (key a)
      \<or> (sort_rank (key a) = sort_rank (key b) \<and> a < b)) ?out"
    by (rule stable_descending [OF assms(1)])
  moreover have "set ?out = set xs" by simp
  ultimately have "sorted_wrt (\<lambda>a b. float_lt (key b) (key a) \<or> (key a = key b \<and> a < b)) ?out"
    using assms(2)
    by (elim sorted_wrt_mono_rel [rotated]) (auto simp: float_lt_rank sort_rank_eq)
  with out show ?thesis by simp
qed

lemma runtime_sorted_set: "set (runtime_sorted lib keys reverse xs) = set xs"
proof (cases "sort (sort_positions lib keys reverse) = [0..<length xs]")
  case True
  then have "set (sort_positions lib keys reverse) = {0..<length xs}"
    by (metis set_sort atLeastLessThan_upt)
  moreover have "(\<lambda>i. xs ! i) ` {0..<length xs} = set xs"
    using nth_image [of "length xs" xs] by simp
  ultimately have "set (map (\<lambda>i. xs ! i) (sort_positions lib keys reverse)) = set xs"
    by simp
  with True show ?thesis by (simp add: runtime_sorted_def)
next
  case False
  then show ?thesis by (simp add: runtime_sorted_def)
qed

lemma runtime_sorted_length: "length (runtime_sorted lib keys reverse xs) = length xs"
proof (cases "sort (sort_positions lib keys reverse) = [0..<length xs]")
  case True
  then have "length (sort_positions lib keys reverse) = length xs"
    by (metis length_sort length_upt diff_zero)
  with True show ?thesis by (simp add: runtime_sorted_def)
next
  case False
  then show ?thesis by (simp add: runtime_sorted_def)
qed

lemma set_sorted_reverse: "set (sorted_reverse lib key xs) = set xs"
  by (simp add: sorted_reverse_def runtime_sorted_set)

lemma length_sorted_reverse: "length (sorted_reverse lib key xs) = length xs"
  by (simp add: sorted_reverse_def runtime_sorted_length)

subsection \<open>The whole call\<close>

text \<open>
  The result of a call that returns: the store grows by one scored copy per surviving
  record, in their order, and the returned references are the first
  \<open>max(0, top_n)\<close> of the new ones in the stable descending order of the scores.
\<close>

lemma donor_prospect_result:
  assumes "live h past_donors"
    and "donor_prospect lib now h past_donors industry_filter region top_n = (h', res)"
  defines "surv \<equiv> filter_donors lib h past_donors industry_filter region"
  shows "\<exists>new. h' = h @ new \<and> length new \<le> length surv
           \<and> (\<forall>k < length new. \<exists>s. donor_score lib now (h ! (surv ! k)) = Inr s
                 \<and> new ! k = AList.update ''potential_score'' (PFloat s) (h ! (surv ! k)))
           \<and> (\<forall>out. res = Inr out \<longrightarrow>
                 length new = length surv
                 \<and> out = take (nat (max 0 top_n))
                     (sorted_reverse lib (potential_score h') [length h..<length h + length surv]))"
proof -
  obtain h1 res1 where loop: "score_loop lib now h surv [] = (h1, res1)"
    by (cases "score_loop lib now h surv []") auto
  have lv: "live h surv"
    unfolding surv_def by (rule live_filter_donors [OF assms(1)])
  from score_loop_store [OF lv loop] obtain new where
    h1: "h1 = h @ new" and len: "length new \<le> length surv"
    and cells: "\<forall>k < length new. \<exists>s. donor_score lib now (h ! (surv ! k)) = Inr s
                 \<and> new ! k = AList.update ''potential_score'' (PFloat s) (h ! (surv ! k))"
    and out: "\<forall>out. res1 = Inr out \<longrightarrow> length new = length surv
                 \<and> out = [] @ [length h..<length h + length surv]"
    by blast
  have h': "h' = h1"
    using assms(2) loop by (cases res1) (simp_all add: donor_prospect_def surv_def)
  have "\<forall>out. res = Inr out \<longrightarrow> length new = length surv
      \<and> out = take (nat (max 0 top_n))
          (sorted_reverse lib (potential_score h') [length h..<length h + length surv])"
  proof (cases res1)
    case (Inl e)
    with assms(2) loop show ?thesis by (auto simp: donor_prospect_def surv_def)
  next
    case (Inr scored)
    with out have "length new = length surv" and "scored = [length h..<length h + length surv]"
      by simp_all
    with assms(2) loop Inr h' show ?thesis
      by (auto simp: donor_prospect_def surv_def Let_def)
  qed
  with h1 h' len cells show ?thesis by blast
qed

text \<open>
  Claim C6, amended. A call that returns gives at most \<open>max(0, top_n)\<close> records (none
  for a negative \<open>top_n\<close>) and at most as many as survive the filters; the returned
  reference \<open>length h + k\<close> is the scored copy of the \<open>k\<close>-th surviving record. When
  no surviving record scores NaN, the records are in descending order of
  \<^verbatim>\<open>potential_score\<close>, and of two records with the same score the one made from the
  earlier surviving input record comes first.
\<close>

theorem donor_prospect_sorted:
  assumes "live h past_donors"
    and "donor_prospect lib now h past_donors industry_filter region top_n = (h', Inr out)"
  shows "length out \<le> nat (max 0 top_n)
         \<and> (top_n < 0 \<longrightarrow> out = [])
         \<and> length out \<le> length (filter_donors lib h past_donors industry_filter region)
         \<and> (\<forall>r \<in> set out.
               \<exists>k < length (filter_donors lib h past_donors industry_filter region).
                 r = length h + k
                 \<and> donor_score lib now
                       (h ! (filter_donors lib h past_donors industry_filter region ! k))
                     = Inr (potential_score h' r))
         \<and> ((\<forall>a \<in> set (filter_donors lib h past_donors industry_filter region).
                donor_score lib now (h ! a) \<noteq> Inr NaN)
              \<longrightarrow> sorted_wrt (\<lambda>a b. float_lt (potential_score h' b) (potential_score h' a)
                                   \<or> (potential_score h' a = potential_score h' b \<and> a < b))
                    out)"
proof -
  let ?surv = "filter_donors lib h past_donors industry_filter region"
  let ?key = "potential_score h'"
  let ?scored = "[length h..<length h + length ?surv]"
  from donor_prospect_result [OF assms] obtain new where
    h': "h' = h @ new" and len: "length new = length ?surv"
    and cells: "\<forall>k < length new. \<exists>s. donor_score lib now (h ! (?surv ! k)) = Inr s
                 \<and> new ! k = AList.update ''potential_score'' (PFloat s) (h ! (?surv ! k))"
    and out: "out = take (nat (max 0 top_n)) (sorted_reverse lib ?key ?scored)"
    by blast
  have key: "donor_score lib now (h ! (?surv ! k)) = Inr (?key (length h + k))"
    if "k < length ?surv" for k
  proof -
    from cells that len obtain s where s: "donor_score lib now (h ! (?surv ! k)) = Inr s"
      and c: "new ! k = AList.update ''potential_score'' (PFloat s) (h ! (?surv ! k))"
      by auto
    have "?key (length h + k) = s"
      unfolding h' using that len c by (intro potential_score_update) simp_all
    with s show ?thesis by simp
  qed
  have l1: "length out \<le> nat (max 0 top_n)" using out by simp
  then have l0: "top_n < 0 \<longrightarrow> out = []" by auto
  have l2: "length out \<le> length ?surv"
    using out by (simp add: length_sorted_reverse)
  have origin: "\<forall>r \<in> set out. \<exists>k < length ?surv. r = length h + k
      \<and> donor_score lib now (h ! (?surv ! k)) = Inr (?key r)"
  proof
    fix r assume "r \<in> set out"
    then have "r \<in> set (sorted_reverse lib ?key ?scored)"
      unfolding out by (rule in_set_takeD)
    then have "length h \<le> r" and "r < length h + length ?surv"
      by (simp_all add: set_sorted_reverse)
    then obtain k where k: "r = length h + k" and kl: "k < length ?surv"
      by (metis le_Suc_ex nat_add_left_cancel_less)
    with key [OF kl] show "\<exists>k < length ?surv. r = length h + k
      \<and> donor_score lib now (h ! (?surv ! k)) = Inr (?key r)" by blast
  qed
  have srt: "sorted_wrt (\<lambda>a b. float_lt (?key b) (?key a) \<or> (?key a = ?key b \<and> a < b)) out"
    if nonan: "\<forall>a \<in> set ?surv. donor_score lib now (h ! a) \<noteq> Inr NaN"
  proof -
    have "\<forall>x \<in> set ?scored. ?key x \<noteq> NaN"
    proof
      fix x assume "x \<in> set ?scored"
      then obtain k where k: "x = length h + k" and kl: "k < length ?surv"
        by (metis atLeastLessThan_iff le_Suc_ex nat_add_left_cancel_less set_upt)
      from nonan kl have "donor_score lib now (h ! (?surv ! k)) \<noteq> Inr NaN" by simp
      with key [OF kl] k show "?key x \<noteq> NaN" by auto
    qed
    then have "sorted_wrt (\<lambda>a b. float_lt (?key b) (?key a) \<or> (?key a = ?key b \<and> a < b))
        (sorted_reverse lib ?key ?scored)"
      by (intro sorted_reverse_stable sorted_wrt_upt)
    then show ?thesis unfolding out by (rule sorted_wrt_take)
  qed
  from l1 l0 l2 origin srt show ?thesis by blast
qed

text \<open>
  On the three sample records, scored 10010, 7500 and 7500, the two best are the
  copies 3 and 4: the tie between 4 and 5 is decided by the input order.
\<close>

theorem donor_prospect_sorted_witness:
  "live sample_store [0, 1, 2]
   \<and> donor_prospect sample_lib sample_now sample_store [0, 1, 2] None None 2
       = (sample_store
            @ [AList.update ''potential_score'' (PFloat (Fin 10010)) donor_naive,
               AList.update ''potential_score'' (PFloat (Fin 7500)) donor_aware,
               AList.update ''potential_score'' (PFloat (Fin 7500)) donor_undated],
          Inr [3, 4])
   \<and> filter_donors sample_lib sample_store [0, 1, 2] None None = [0, 1, 2]
   \<and> donor_score sample_lib sample_now (sample_store ! 0) = Inr (Fin 10010)
   \<and> donor_score sample_lib sample_now (sample_store ! 1) = Inr (Fin 7500)
   \<and> donor_score sample_lib sample_now (sample_store ! 2) = Inr (Fin 7500)
   \<and> length [3 :: nat, 4] \<le> nat (max 0 2)
   \<and> sorted_wrt
         (\<lambda>a b. float_lt
                  (potential_score
                     (sample_store
                        @ [AList.update ''potential_score'' (PFloat (Fin 10010)) donor_naive,
                           AList.update ''potential_score'' (PFloat (Fin 7500)) donor_aware,
                           AList.update ''potential_score'' (PFloat (Fin 7500)) donor_undated])
                     b)
                  (potential_score
                     (sample_store
                        @ [AList.update ''potential_score'' (PFloat (Fin 10010)) donor_naive,
                           AList.update ''potential_score'' (PFloat (Fin 7500)) donor_aware,
                           AList.update ''potential_score'' (PFloat (Fin 7500)) donor_undated])
                     a)
                \<or> (potential_score
                     (sample_store
                        @ [AList.update ''potential_score'' (PFloat (Fin 10010)) donor_naive,
                           AList.update ''potential_score'' (PFloat (Fin 7500)) donor_aware,
                           AList.update ''potential_score'' (PFloat (Fin 7500)) donor_undated])
                     a
                    = potential_score
                     (sample_store
                        @ [AList.update ''potential_score'' (PFloat (Fin 10010)) donor_naive,
                           AList.update ''potential_score'' (PFloat (Fin 7500)) donor_aware,
                           AList.update ''potential_score'' (PFloat (Fin 7500)) donor_undated])
                     b
                   \<and> a < b))
         [3, 4]"
proof -
  have lv: "live sample_store [0, 1, 2]"
    by (simp add: live_def sample_store_def)
  have run: "donor_prospect sample_lib sample_now sample_store [0, 1, 2] None None 2
       = (sample_store
            @ [AList.update ''potential_score'' (PFloat (Fin 10010)) donor_naive,
               AList.update ''potential_score'' (PFloat (Fin 7500)) donor_aware,
               AList.update ''potential_score'' (PFloat (Fin 7500)) donor_undated],
          Inr [3, 4])"
    by code_simp
  have surv: "filter_donors sample_lib sample_store [0, 1, 2] None None = [0, 1, 2]"
    by (simp add: filter_donors_def)
  have s0: "donor_score sample_lib sample_now (sample_store ! 0) = Inr (Fin 10010)"
    and s1: "donor_score sample_lib sample_now (sample_store ! 1) = Inr (Fin 7500)"
    and s2: "donor_score sample_lib sample_now (sample_store ! 2) = Inr (Fin 7500)"
    by code_simp+
  have nonan: "\<forall>a \<in> set (filter_donors sample_lib sample_store [0, 1, 2] None None).
      donor_score sample_lib sample_now (sample_store ! a) \<noteq> Inr NaN"
    unfolding surv using s0 s1 s2 by simp
  from donor_prospect_sorted [OF lv run] nonan lv run surv s0 s1 s2
  show ?thesis by blast
qed

text \<open>
  Claim C6 as stated fails: of three records with the amounts 100, \<^verbatim>\<open>"nan"\<close> and 200
  the second scores NaN (\<^verbatim>\<open>float("nan")\<close> succeeds), and the call returns the copies
  in the order of the scores 50, NaN, 100, which is not descending. With a NaN among
  the keys, \<^verbatim>\<open><\<close> is false in both directions next to it, and the sort leaves this
  list as it is.
\<close>

theorem donor_prospect_sorted_counterexample:
  "donor_prospect sample_lib sample_now nan_store [0, 1, 2] None None 5
     = (nan_store
          @ [AList.update ''potential_score'' (PFloat (Fin 50)) donor_100,
             AList.update ''potential_score'' (PFloat NaN) donor_nan,
             AList.update ''potential_score'' (PFloat (Fin 100)) donor_200],
        Inr [3, 4, 5])
   \<and> potential_score
         (nan_store
            @ [AList.update ''potential_score'' (PFloat (Fin 50)) donor_100,
               AList.update ''potential_score'' (PFloat NaN) donor_nan,
               AList.update ''potential_score'' (PFloat (Fin 100)) donor_200]) 3 = Fin 50
   \<and> potential_score
         (nan_store
            @ [AList.update ''potential_score'' (PFloat (Fin 50)) donor_100,
               AList.update ''potential_score'' (PFloat NaN) donor_nan,
               AList.update ''potential_score'' (PFloat (Fin 100)) donor_200]) 5 = Fin 100
   \<and> float_lt (Fin 50) (Fin 100)"
  by code_simp

text \<open>
  Claim C7. The call leaves every object of the caller's store as it was (also when it
  ends with an exception), and every returned reference is new: it denotes an object
  allocated by the call, whose items are those of one of the input records with
  \<^verbatim>\<open>potential_score\<close> set, and no input record is among the returned ones.
\<close>

theorem donor_prospect_frame:
  assumes "live h past_donors"
    and "donor_prospect lib now h past_donors industry_filter region top_n = (h', res)"
  shows "take (length h) h' = h
         \<and> (\<forall>a < length h. h' ! a = h ! a)
         \<and> (\<forall>out. res = Inr out \<longrightarrow>
               (\<forall>r \<in> set out. length h \<le> r \<and> r < length h' \<and> r \<notin> set past_donors
                  \<and> (\<exists>d \<in> set past_donors. \<exists>q.
                        h' ! r = AList.update ''potential_score'' (PFloat q) (h ! d))))"
proof -
  let ?surv = "filter_donors lib h past_donors industry_filter region"
  from donor_prospect_result [OF assms] obtain new where
    h': "h' = h @ new"
    and cells: "\<forall>k < length new. \<exists>s. donor_score lib now (h ! (?surv ! k)) = Inr s
                 \<and> new ! k = AList.update ''potential_score'' (PFloat s) (h ! (?surv ! k))"
    and out: "\<forall>out. res = Inr out \<longrightarrow> length new = length ?surv
                 \<and> out = take (nat (max 0 top_n))
                     (sorted_reverse lib (potential_score h') [length h..<length h + length ?surv])"
    by blast
  have f1: "take (length h) h' = h" using h' by simp
  have f2: "\<forall>a < length h. h' ! a = h ! a" using h' by (simp add: nth_append)
  have f3: "\<forall>out. res = Inr out \<longrightarrow>
      (\<forall>r \<in> set out. length h \<le> r \<and> r < length h' \<and> r \<notin> set past_donors
         \<and> (\<exists>d \<in> set past_donors. \<exists>q.
               h' ! r = AList.update ''potential_score'' (PFloat q) (h ! d)))"
  proof (intro allI impI ballI)
    fix out r assume res: "res = Inr out" and r: "r \<in> set out"
    from out res have len: "length new = length ?surv"
      and o: "out = take (nat (max 0 top_n))
          (sorted_reverse lib (potential_score h') [length h..<length h + length ?surv])"
      by simp_all
    from r have "r \<in> set (sorted_reverse lib (potential_score h') [length h..<length h + length ?surv])"
      unfolding o by (rule in_set_takeD)
    then have lo: "length h \<le> r" and hi: "r < length h + length ?surv"
      by (simp_all add: set_sorted_reverse)
    then obtain k where k: "r = length h + k" and kl: "k < length ?surv"
      by (metis le_Suc_ex nat_add_left_cancel_less)
    from cells kl len obtain s where
      c: "new ! k = AList.update ''potential_score'' (PFloat s) (h ! (?surv ! k))"
      by auto
    have cell: "h' ! r = AList.update ''potential_score'' (PFloat s) (h ! (?surv ! k))"
      unfolding h' k using c by simp
    have "?surv ! k \<in> set past_donors"
      using kl set_filter_donors [of lib h past_donors industry_filter region] by auto
    with cell have ex: "\<exists>d \<in> set past_donors. \<exists>q.
        h' ! r = AList.update ''potential_score'' (PFloat q) (h ! d)" by blast
    have fresh: "r \<notin> set past_donors"
      using assms(1) lo by (auto simp: live_def list_all_iff)
    from lo hi len h' fresh ex
    show "length h \<le> r \<and> r < length h' \<and> r \<notin> set past_donors
         \<and> (\<exists>d \<in> set past_donors. \<exists>q.
               h' ! r = AList.update ''potential_score'' (PFloat q) (h ! d))"
      by simp
  qed
  from f1 f2 f3 show ?thesis by blast
qed

theorem donor_prospect_frame_witness:
  "live sample_store [0, 1, 2]
   \<and> donor_prospect sample_lib sample_now sample_store [0, 1, 2] (Some [''Finance'']) None 5
       = (sample_store @ [AList.update ''potential_score'' (PFloat (Fin 7500)) donor_aware],
          Inr [3])
   \<and> take (length sample_store)
        (sample_store @ [AList.update ''potential_score'' (PFloat (Fin 7500)) donor_aware])
       = sample_store"
proof -
  have lv: "live sample_store [0, 1, 2]"
    by (simp add: live_def sample_store_def)
  have run: "donor_prospect sample_lib sample_now sample_store [0, 1, 2] (Some [''Finance'']) None 5
       = (sample_store @ [AList.update ''potential_score'' (PFloat (Fin 7500)) donor_aware],
          Inr [3])"
    by code_simp
  from donor_prospect_frame [OF lv run] lv run show ?thesis by simp
qed

text \<open>
  Claim C10. An empty industry list filters as no industry list does, and an empty
  region string as no region does: the call gives the same result, and with both
  empty every donor survives the filters.
\<close>

theorem donor_prospect_empty_filter:
  "donor_prospect lib now h past_donors (Some []) region top_n
     = donor_prospect lib now h past_donors None region top_n
   \<and> donor_prospect lib now h past_donors industry_filter (Some []) top_n
     = donor_prospect lib now h past_donors industry_filter None top_n
   \<and> filter_donors lib h past_donors (Some []) region
     = filter_donors lib h past_donors None region
   \<and> filter_donors lib h past_donors (Some []) (Some []) = past_donors"
  by (simp add: donor_prospect_def filter_donors_def)

section \<open>Properties of the Dashboard Aggregator\<close>

subsection \<open>Strings\<close>


lemma starts_with_append: "starts_with n (n @ b)"
  by (induction n) simp_all

lemma contains_prefix: "contains n (n @ b)"
proof (cases "n @ b")
  case Nil
  then show ?thesis by simp
next
  case (Cons x xs)
  have "starts_with n (n @ b)" by (rule starts_with_append)
  then have "starts_with n (x # xs)" by (simp only: Cons)
  then have "contains n (x # xs)" by simp
  then show ?thesis by (simp only: Cons)
qed

lemma contains_Cons: "contains n ys \<Longrightarrow> contains n (x # ys)"
  by simp

lemma contains_append: "contains n (a @ n @ b)"
  by (induction a) (simp_all add: contains_prefix del: contains.simps add: contains_Cons)

text \<open>
  The digits of \<^verbatim>\<open>format(n, ",")\<close> are those of \<^verbatim>\<open>str(n)\<close>: taking the commas out of
  the one gives the other.
\<close>

lemma digit_char_no_comma: "d < 10 \<Longrightarrow> digit_char d \<noteq> CHR '',''"
proof -
  assume "d < 10"
  then have "d \<in> {0, 1, 2, 3, 4, 5, 6, 7, 8, 9}" by auto
  then show ?thesis by (auto simp: digit_char_def)
qed

lemma str_of_nat_no_comma: "CHR '','' \<notin> set (str_of_nat n)"
proof (induction n rule: str_of_nat.induct)
  case (1 n)
  show ?case
  proof (cases "n < 10")
    case True
    then show ?thesis
      using digit_char_no_comma [of n] by (simp add: str_of_nat.simps [of n])
  next
    case False
    with 1 digit_char_no_comma [of "n mod 10"] show ?thesis
      by (simp add: str_of_nat.simps [of n])
  qed
qed

lemma pad3_no_comma: "n < 1000 \<Longrightarrow> CHR '','' \<notin> set (pad3 n)"
proof -
  assume "n < 1000"
  then have "n div 100 < 10" by simp
  then show ?thesis
    using digit_char_no_comma [of "n div 100"] digit_char_no_comma [of "n div 10 mod 10"]
      digit_char_no_comma [of "n mod 10"]
    by (simp add: pad3_def)
qed

lemma str_of_nat_thousands:
  assumes "1000 \<le> n"
  shows "str_of_nat n = str_of_nat (n div 1000) @ pad3 (n mod 1000)"
proof -
  have a: "str_of_nat n = str_of_nat (n div 10) @ [digit_char (n mod 10)]"
    using assms by (simp add: str_of_nat.simps [of n])
  have "n div 10 div 10 = n div 100" and "n div 100 div 10 = n div 1000"
    by (simp_all add: div_mult2_eq [symmetric])
  moreover have "\<not> n div 10 < 10" and "\<not> n div 100 < 10"
    using assms by simp_all
  ultimately
  have b: "str_of_nat (n div 10) = str_of_nat (n div 100) @ [digit_char (n div 10 mod 10)]"
    and c: "str_of_nat (n div 100) = str_of_nat (n div 1000) @ [digit_char (n div 100 mod 10)]"
    by (simp_all add: str_of_nat.simps [of "n div 10"] str_of_nat.simps [of "n div 100"])
  have "n mod 1000 = 100 * (n div 100 mod 10) + n mod 100"
    using mod_mult2_eq [of n 100 10] by simp
  then have d1: "n mod 1000 div 100 = n div 100 mod 10" by simp
  have "n mod 1000 = 10 * (n div 10 mod 100) + n mod 10"
    using mod_mult2_eq [of n 10 100] by simp
  then have "n mod 1000 div 10 = n div 10 mod 100" by simp
  moreover have "n div 10 mod 100 mod 10 = n div 10 mod 10"
    by (simp add: mod_mod_cancel)
  ultimately have d2: "n mod 1000 div 10 mod 10 = n div 10 mod 10" by simp
  have d3: "n mod 1000 mod 10 = n mod 10"
    by (simp add: mod_mod_cancel)
  have "pad3 (n mod 1000)
      = [digit_char (n div 100 mod 10), digit_char (n div 10 mod 10), digit_char (n mod 10)]"
    by (simp only: pad3_def d1 d2 d3)
  with a b c show ?thesis by simp
qed

lemma comma_nat_digits: "filter (\<lambda>c. c \<noteq> CHR '','') (comma_nat n) = str_of_nat n"
proof (induction n rule: comma_nat.induct)
  case (1 n)
  show ?case
  proof (cases "n < 1000")
    case True
    have "filter (\<lambda>c. c \<noteq> CHR '','') (str_of_nat n) = str_of_nat n"
      using str_of_nat_no_comma [of n] by (auto simp: filter_id_conv)
    with True show ?thesis
      by (simp add: comma_nat.simps [of n])
  next
    case False
    have p: "filter (\<lambda>c. c \<noteq> CHR '','') (pad3 (n mod 1000)) = pad3 (n mod 1000)"
      using pad3_no_comma [of "n mod 1000"] by (auto simp: filter_id_conv)
    have ih: "filter (\<lambda>c. c \<noteq> CHR '','') (comma_nat (n div 1000)) = str_of_nat (n div 1000)"
      using False 1 by simp
    have "comma_nat n = comma_nat (n div 1000) @ '','' @ pad3 (n mod 1000)"
      using False by (simp add: comma_nat.simps [of n])
    then have "filter (\<lambda>c. c \<noteq> CHR '','') (comma_nat n)
        = str_of_nat (n div 1000) @ pad3 (n mod 1000)"
      using p ih by simp
    also have "\<dots> = str_of_nat n"
      using False str_of_nat_thousands [of n] by simp
    finally show ?thesis .
  qed
qed

lemma comma_int_digits: "filter (\<lambda>c. c \<noteq> CHR '','') (comma_int n) = str_of_int n"
  by (simp add: comma_int_def str_of_int_def comma_nat_digits)

subsection \<open>The sort of the deadlines\<close>






subsection \<open>The revenue lines\<close>


lemma revenue_block_result:
  assumes "revenue_block lib a b = Inr block"
  shows "\<exists>ts ps gap gs. format_comma lib a = Inr ts \<and> format_comma lib b = Inr ps
           \<and> py_sub lib a b = Inr gap \<and> format_comma lib gap = Inr gs
           \<and> block = ''\<newline>'' @ bullet @ '' Event Revenue Projection:\<newline>''
                 @ ''   Target: $'' @ ts @ ''\<newline>''
                 @ ''   Projected: $'' @ ps @ ''\<newline>''
                 @ ''   Gap: $'' @ gs @ ''\<newline>''
                 @ next_steps"
  using assms by (auto simp: revenue_block_def split: sum.splits)


subsection \<open>The report\<close>



lemma dashboard_summary_block:
  assumes "dashboard_summary lib opportunities donor_prospects ev = Inr s"
  shows "\<exists>summary block.
           revenue_block lib (dict_get ev ''target_revenue'' (PInt 0))
             (dict_get ev ''projected_revenue'' (PInt 0)) = Inr block
           \<and> s = summary @ block"
  using assms by (auto simp: dashboard_summary_def Let_def split: sum.splits)


text \<open>
  Claim C8. A report that is produced contains the line \<^verbatim>\<open>   Gap: $\<close> followed by the
  difference \<open>target - projected\<close> (a missing one counting as 0), formatted as the
  target and the projection are, with a comma between groups of three digits. For
  ints the line prints the digits of \<open>target - projected\<close> with its sign, so a negative
  gap is not clamped: for 100000 and 65000 it shows \<^verbatim>\<open>35,000\<close>, for 50000 and 65000
  it shows \<^verbatim>\<open>-15,000\<close>. For floats it prints their float difference.
\<close>

theorem dashboard_gap_line:
  assumes "dashboard_summary lib opportunities donor_prospects ev = Inr s"
  shows "(\<exists>gap gs.
            py_sub lib (dict_get ev ''target_revenue'' (PInt 0))
              (dict_get ev ''projected_revenue'' (PInt 0)) = Inr gap
            \<and> format_comma lib gap = Inr gs
            \<and> contains (''   Gap: $'' @ gs @ ''\<newline>'') s)
         \<and> (dict_get ev ''target_revenue'' (PInt 0) = PInt t
              \<and> dict_get ev ''projected_revenue'' (PInt 0) = PInt p
            \<longrightarrow> contains (''   Gap: $'' @ comma_int (t - p) @ ''\<newline>'') s)
         \<and> (dict_get ev ''target_revenue'' (PInt 0) = PFloat x
              \<and> dict_get ev ''projected_revenue'' (PInt 0) = PFloat y
            \<longrightarrow> contains (''   Gap: $'' @ format_float lib (fsub lib x y) @ ''\<newline>'') s)
         \<and> filter (\<lambda>c. c \<noteq> CHR '','') (comma_int (t - p)) = str_of_int (t - p)
         \<and> comma_int (100000 - 65000) = ''35,000''
         \<and> comma_int (50000 - 65000) = ''-15,000''"
proof -
  from dashboard_summary_block [OF assms] obtain summary block where
    b: "revenue_block lib (dict_get ev ''target_revenue'' (PInt 0))
          (dict_get ev ''projected_revenue'' (PInt 0)) = Inr block"
    and s: "s = summary @ block"
    by blast
  from revenue_block_result [OF b] obtain ts ps gap gs where
    sub: "py_sub lib (dict_get ev ''target_revenue'' (PInt 0))
            (dict_get ev ''projected_revenue'' (PInt 0)) = Inr gap"
    and gs: "format_comma lib gap = Inr gs"
    and block: "block = ''\<newline>'' @ bullet @ '' Event Revenue Projection:\<newline>''
                 @ ''   Target: $'' @ ts @ ''\<newline>''
                 @ ''   Projected: $'' @ ps @ ''\<newline>''
                 @ ''   Gap: $'' @ gs @ ''\<newline>''
                 @ next_steps"
    by blast
  let ?pre = "summary @ ''\<newline>'' @ bullet @ '' Event Revenue Projection:\<newline>''
      @ ''   Target: $'' @ ts @ ''\<newline>''
      @ ''   Projected: $'' @ ps @ ''\<newline>''"
  have "s = ?pre @ (''   Gap: $'' @ gs @ ''\<newline>'') @ next_steps"
    using s block by simp
  then have line: "contains (''   Gap: $'' @ gs @ ''\<newline>'') s"
    using contains_append [of "''   Gap: $'' @ gs @ ''\<newline>''" ?pre next_steps] by simp
  have ints: "contains (''   Gap: $'' @ comma_int (t - p) @ ''\<newline>'') s"
    if "dict_get ev ''target_revenue'' (PInt 0) = PInt t
        \<and> dict_get ev ''projected_revenue'' (PInt 0) = PInt p"
  proof -
    from that sub have "gap = PInt (t - p)" by (auto simp: py_sub_def)
    with gs line show ?thesis by auto
  qed
  have floats: "contains (''   Gap: $'' @ format_float lib (fsub lib x y) @ ''\<newline>'') s"
    if "dict_get ev ''target_revenue'' (PInt 0) = PFloat x
        \<and> dict_get ev ''projected_revenue'' (PInt 0) = PFloat y"
  proof -
    from that sub have "gap = PFloat (fsub lib x y)" by (auto simp: py_sub_def)
    with gs line show ?thesis by auto
  qed
  have e1: "comma_int (100000 - 65000) = ''35,000''"
    and e2: "comma_int (50000 - 65000) = ''-15,000''"
    by (simp_all add: comma_int_def comma_nat.simps str_of_nat.simps pad3_def digit_char_def)
  from sub gs line ints floats comma_int_digits [of "t - p"] e1 e2
  show ?thesis by blast
qed

text \<open>
  The two reports of the claim: the gap line shows \<^verbatim>\<open>35,000\<close> for a target of 100000
  and a projection of 65000, and \<^verbatim>\<open>-15,000\<close> for a target of 50000.
\<close>

theorem dashboard_gap_line_witness:
  "dashboard_summary sample_lib [] []
     [(''target_revenue'', PInt 100000), (''projected_revenue'', PInt 65000)]
     = Inr (glass @ '' Funding Pipeline Summary:\<newline>\<newline>''
            @ bullet @ '' Opportunities in pipeline: 0\<newline>''
            @ ''\<newline>'' @ bullet @ '' Top donor/sponsor prospects:\<newline>''
            @ ''\<newline>'' @ bullet @ '' Event Revenue Projection:\<newline>''
            @ ''   Target: $100,000\<newline>''
            @ ''   Projected: $65,000\<newline>''
            @ ''   Gap: $35,000\<newline>''
            @ next_steps)
   \<and> contains ''   Gap: $35,000\<newline>''
         (glass @ '' Funding Pipeline Summary:\<newline>\<newline>''
            @ bullet @ '' Opportunities in pipeline: 0\<newline>''
            @ ''\<newline>'' @ bullet @ '' Top donor/sponsor prospects:\<newline>''
            @ ''\<newline>'' @ bullet @ '' Event Revenue Projection:\<newline>''
            @ ''   Target: $100,000\<newline>''
            @ ''   Projected: $65,000\<newline>''
            @ ''   Gap: $35,000\<newline>''
            @ next_steps)
   \<and> dashboard_summary sample_lib [] []
       [(''target_revenue'', PInt 50000), (''projected_revenue'', PInt 65000)]
     = Inr (glass @ '' Funding Pipeline Summary:\<newline>\<newline>''
            @ bullet @ '' Opportunities in pipeline: 0\<newline>''
            @ ''\<newline>'' @ bullet @ '' Top donor/sponsor prospects:\<newline>''
            @ ''\<newline>'' @ bullet @ '' Event Revenue Projection:\<newline>''
            @ ''   Target: $50,000\<newline>''
            @ ''   Projected: $65,000\<newline>''
            @ ''   Gap: $-15,000\<newline>''
            @ next_steps)
   \<and> contains ''   Gap: $-15,000\<newline>''
         (glass @ '' Funding Pipeline Summary:\<newline>\<newline>''
            @ bullet @ '' Opportunities in pipeline: 0\<newline>''
            @ ''\<newline>'' @ bullet @ '' Top donor/sponsor prospects:\<newline>''
            @ ''\<newline>'' @ bullet @ '' Event Revenue Projection:\<newline>''
            @ ''   Target: $50,000\<newline>''
            @ ''   Projected: $65,000\<newline>''
            @ ''   Gap: $-15,000\<newline>''
            @ next_steps)"
proof -
  let ?ev1 = "[(''target_revenue'', PInt 100000), (''projected_revenue'', PInt 65000)]"
  let ?ev2 = "[(''target_revenue'', PInt 50000), (''projected_revenue'', PInt 65000)]"
  let ?s1 = "glass @ '' Funding Pipeline Summary:\<newline>\<newline>''
            @ bullet @ '' Opportunities in pipeline: 0\<newline>''
            @ ''\<newline>'' @ bullet @ '' Top donor/sponsor prospects:\<newline>''
            @ ''\<newline>'' @ bullet @ '' Event Revenue Projection:\<newline>''
            @ ''   Target: $100,000\<newline>''
            @ ''   Projected: $65,000\<newline>''
            @ ''   Gap: $35,000\<newline>''
            @ next_steps"
  let ?s2 = "glass @ '' Funding Pipeline Summary:\<newline>\<newline>''
            @ bullet @ '' Opportunities in pipeline: 0\<newline>''
            @ ''\<newline>'' @ bullet @ '' Top donor/sponsor prospects:\<newline>''
            @ ''\<newline>'' @ bullet @ '' Event Revenue Projection:\<newline>''
            @ ''   Target: $50,000\<newline>''
            @ ''   Projected: $65,000\<newline>''
            @ ''   Gap: $-15,000\<newline>''
            @ next_steps"
  have run1: "dashboard_summary sample_lib [] [] ?ev1 = Inr ?s1"
    and run2: "dashboard_summary sample_lib [] [] ?ev2 = Inr ?s2"
    by (simp_all add: dashboard_summary_def py_sorted_def revenue_block_def py_sub_def
        dict_get_def comma_int_def comma_nat.simps str_of_nat.simps pad3_def digit_char_def)
  have t1: "dict_get ?ev1 ''target_revenue'' (PInt 0) = PInt 100000
      \<and> dict_get ?ev1 ''projected_revenue'' (PInt 0) = PInt 65000"
    and t2: "dict_get ?ev2 ''target_revenue'' (PInt 0) = PInt 50000
      \<and> dict_get ?ev2 ''projected_revenue'' (PInt 0) = PInt 65000"
    by (simp_all add: dict_get_def)
  note g1 = dashboard_gap_line [OF run1, of 100000 65000]
    and g2 = dashboard_gap_line [OF run2, of 50000 65000]
  have c1: "contains ''   Gap: $35,000\<newline>'' ?s1"
  proof -
    from g1 t1 have "contains (''   Gap: $'' @ comma_int (100000 - 65000) @ ''\<newline>'') ?s1"
      by blast
    moreover from g1 have "comma_int (100000 - 65000) = ''35,000''" by blast
    ultimately show ?thesis by (simp only: append.simps)
  qed
  have c2: "contains ''   Gap: $-15,000\<newline>'' ?s2"
  proof -
    from g2 t2 have "contains (''   Gap: $'' @ comma_int (50000 - 65000) @ ''\<newline>'') ?s2"
      by blast
    moreover from g2 have "comma_int (50000 - 65000) = ''-15,000''" by blast
    ultimately show ?thesis by (simp only: append.simps)
  qed
  from run1 run2 c1 c2 show ?thesis by (intro conjI)
qed




end
